theory Spec2Isabelle
  imports Complex_Main "HOL-Library.Finite_Map" "HOL-Library.FSet" "HOL-Library.AList"
begin

section \<open>Conventions\<close>

text \<open>
  The bot is written in TypeScript. Its \<open>number\<close>s are modelled as \<open>real\<close> (prices, sizes,
  amounts), \<open>int\<close> (configured counts) or \<open>nat\<close> (clock readings in milliseconds), so
  rounding error, \<open>NaN\<close> and overflow to \<open>Infinity\<close> are outside the model; the one place
  where the code stores \<open>Number.POSITIVE_INFINITY\<close> on purpose has a constructor of its own.
  A JavaScript \<open>Map\<close> is a finite map; an array is a list. A \<open>throw\<close> is a value of an
  error type, returned together with the state the throw leaves behind.
  What the code obtains from outside (SHA-256, \<open>JSON.stringify\<close>, the wallet's address, the
  exchange's answers) is a parameter of the functions that use it. The parameter \<open>now\<close> of
  an operation stands for the readings of \<open>Date.now()\<close> taken while it runs; an operation
  runs to its end before the next one starts, except in the risk engine, whose trailing
  stop update is started without being awaited and is therefore cut at its \<open>await\<close>s.
\<close>

section \<open>Security gate (\<open>src/bot/core/security.ts\<close>)\<close>

subsection \<open>Data\<close>

datatype json =
    JNull
  | JBool bool
  | JNum real
  | JStr string
  | JArr "json list"
  | JObj "(string \<times> json) list"

datatype security_level = Low | Medium | High

datatype tx_status = Pending | Approved | Rejected | Executed | Expired

record pending_tx =
  tx_id :: string
  tx_type :: string
  tx_data :: json
  tx_value :: real
  tx_timestamp :: nat
  tx_signatures :: "(string, string) fmap"
  tx_status :: tx_status

record history_entry =
  th_id :: string
  th_type :: string
  th_data :: json
  th_value :: real
  th_timestamp :: nat
  th_status :: string
  th_securityLevel :: security_level

record audit_entry =
  ae_timestamp :: nat
  ae_action :: string
  ae_details :: json
  ae_hash :: string

record security_config =
  multiSig_enable :: bool
  requiredSignatures :: int
  authorizedAddresses :: "string list"
  tier1_maxAmount :: real
  tier1_securityLevel :: security_level
  tier2_maxAmount :: real
  tier2_securityLevel :: security_level
  tier3_maxAmount :: real
  tier3_securityLevel :: security_level

record security_state =
  pendingTransactions :: "(string, pending_tx) fmap"
  transactionHistory :: "history_entry list"
  auditLog :: "audit_entry list"

text \<open>The collaborators of the security manager: Node's \<open>crypto\<close> hash, \<open>JSON.stringify\<close>
  and the wallet manager's \<open>getAddress()\<close>.\<close>

record environment =
  sha256 :: "string \<Rightarrow> string"
  stringify :: "json \<Rightarrow> string"
  walletAddress :: string

datatype sec_error =
    NotFoundOrNotPending string
  | NotAuthorized string
  | TypeError

subsection \<open>Helpers of the language\<close>

text \<open>Decimal rendering of a clock reading inside a template string.\<close>

function decimal :: "nat \<Rightarrow> string" where
  "decimal n = (if n < 10 then [char_of (48 + n)]
                else decimal (n div 10) @ [char_of (48 + n mod 10)])"
  by pat_completeness auto
termination
  by (relation "measure id") auto

declare decimal.simps [simp del]

definition level_name :: "security_level \<Rightarrow> string" where
  "level_name l = (case l of Low \<Rightarrow> ''low'' | Medium \<Rightarrow> ''medium'' | High \<Rightarrow> ''high'')"

text \<open>Property access \<open>v.key\<close>: a \<open>TypeError\<close> on \<open>null\<close>, the stored value on an object
  that has the key, \<open>undefined\<close> (\<open>None\<close>) everywhere else.\<close>

definition getProp :: "json \<Rightarrow> string \<Rightarrow> sec_error + json option" where
  "getProp v key = (case v of
       JNull \<Rightarrow> Inl TypeError
     | JObj entries \<Rightarrow> Inr (map_of entries key)
     | _ \<Rightarrow> Inr None)"

subsection \<open>Audit trail\<close>

definition genesisHash :: string where
  "genesisHash = replicate 64 (CHR ''0'')"

definition auditDataString :: "environment \<Rightarrow> nat \<Rightarrow> string \<Rightarrow> json \<Rightarrow> string \<Rightarrow> string" where
  "auditDataString env timestamp action details previousHash =
     stringify env (JObj [(''timestamp'', JNum (real timestamp)),
                          (''action'', JStr action),
                          (''details'', details),
                          (''previousHash'', JStr previousHash)])"

definition logToAudit ::
  "environment \<Rightarrow> nat \<Rightarrow> string \<Rightarrow> json \<Rightarrow> security_state \<Rightarrow> security_state" where
  "logToAudit env now action details st =
     (let timestamp = now;
          previousHash = (if length (auditLog st) > 0 then ae_hash (last (auditLog st))
                          else genesisHash);
          dataString = auditDataString env timestamp action details previousHash;
          hash = sha256 env dataString;
          pushed = auditLog st @
            [\<lparr>ae_timestamp = timestamp, ae_action = action, ae_details = details, ae_hash = hash\<rparr>]
      in st\<lparr>auditLog := (if length pushed > 10000 then tl pushed else pushed)\<rparr>)"

text \<open>The body of the \<open>for\<close> loop of \<open>verifyAuditLog\<close>, run over the indices
  \<open>1, \<dots>, length - 1\<close> in order; a \<open>return false\<close> ends the loop.\<close>

fun verifyLoop :: "environment \<Rightarrow> audit_entry list \<Rightarrow> nat list \<Rightarrow> sec_error + bool" where
  "verifyLoop env entries [] = Inr True"
| "verifyLoop env entries (i # rest) =
     (let currentEntry = entries ! i;
          previousEntry = entries ! (i - 1)
      in case getProp (ae_details currentEntry) ''previousHash'' of
           Inl e \<Rightarrow> Inl e
         | Inr p \<Rightarrow>
             if p \<noteq> Some (JStr (ae_hash previousEntry)) then Inr False
             else
               let dataString = auditDataString env (ae_timestamp previousEntry)
                      (ae_action previousEntry) (ae_details previousEntry)
                      (if i > 1 then ae_hash (entries ! (i - 2)) else genesisHash);
                   calculatedHash = sha256 env dataString
               in if calculatedHash \<noteq> ae_hash previousEntry then Inr False
                  else verifyLoop env entries rest)"

definition verifyAuditLog :: "environment \<Rightarrow> security_state \<Rightarrow> sec_error + bool" where
  "verifyAuditLog env st =
     (if length (auditLog st) = 0 then Inr True
      else verifyLoop env (auditLog st) [1 ..< length (auditLog st)])"

subsection \<open>Transactions\<close>

definition getSecurityLevel :: "security_config \<Rightarrow> real \<Rightarrow> security_level" where
  "getSecurityLevel cfg v =
     (if v \<le> tier1_maxAmount cfg then tier1_securityLevel cfg
      else if v \<le> tier2_maxAmount cfg then tier2_securityLevel cfg
      else tier3_securityLevel cfg)"

text \<open>\<open>executeTransaction\<close>. Nothing in its \<open>try\<close> block throws by itself (listeners of the
  emitted events are outside the model), so the \<open>catch\<close> branch has no counterpart here.\<close>

definition executeTransaction ::
  "environment \<Rightarrow> security_config \<Rightarrow> nat \<Rightarrow> string \<Rightarrow> string \<Rightarrow> json \<Rightarrow> real
     \<Rightarrow> security_state \<Rightarrow> security_state" where
  "executeTransaction env cfg now ident type data v st =
     (let st1 = (case fmlookup (pendingTransactions st) ident of
                   None \<Rightarrow> st
                 | Some pendingTransaction \<Rightarrow>
                     st\<lparr>pendingTransactions :=
                          fmupd ident (pendingTransaction\<lparr>tx_status := Executed\<rparr>)
                            (pendingTransactions st)\<rparr>);
          st2 = logToAudit env now ''transaction_executed''
                  (JObj [(''transactionId'', JStr ident), (''type'', JStr type),
                         (''value'', JNum v), (''data'', data)]) st1;
          pushed = transactionHistory st2 @
            [\<lparr>th_id = ident, th_type = type, th_data = data, th_value = v, th_timestamp = now,
              th_status = ''executed'', th_securityLevel = getSecurityLevel cfg v\<rparr>]
      in st2\<lparr>transactionHistory := (if length pushed > 1000 then tl pushed else pushed)\<rparr>)"

text \<open>\<open>signTransaction\<close>: the two \<open>throw\<close>s come before any write, then the signature is
  stored under the signer's address, the audit entry is written and, with enough signatures,
  the transaction is approved and executed at once.\<close>

definition signTransaction ::
  "environment \<Rightarrow> security_config \<Rightarrow> nat \<Rightarrow> string \<Rightarrow> string \<Rightarrow> security_state
     \<Rightarrow> (sec_error + bool) \<times> security_state" where
  "signTransaction env cfg now transactionId signerAddress st =
     (case fmlookup (pendingTransactions st) transactionId of
        None \<Rightarrow> (Inl (NotFoundOrNotPending transactionId), st)
      | Some transaction \<Rightarrow>
          if tx_status transaction \<noteq> Pending
          then (Inl (NotFoundOrNotPending transactionId), st)
          else if signerAddress \<notin> set (authorizedAddresses cfg)
                  \<and> signerAddress \<noteq> walletAddress env
          then (Inl (NotAuthorized signerAddress), st)
          else
            let signature = sha256 env
                  (transactionId @ '':'' @ signerAddress @ '':'' @ decimal now);
                transaction1 = transaction
                  \<lparr>tx_signatures := fmupd signerAddress signature (tx_signatures transaction)\<rparr>;
                st1 = st\<lparr>pendingTransactions :=
                          fmupd transactionId transaction1 (pendingTransactions st)\<rparr>;
                signatureCount = int (fcard (fmdom (tx_signatures transaction1)));
                st2 = logToAudit env now ''transaction_signed''
                        (JObj [(''transactionId'', JStr transactionId),
                               (''signer'', JStr signerAddress),
                               (''signatureCount'', JNum (of_int signatureCount)),
                               (''requiredSignatures'', JNum (of_int (requiredSignatures cfg)))])
                        st1;
                isReady = (signatureCount \<ge> requiredSignatures cfg)
            in if isReady
               then
                 let st3 = st2\<lparr>pendingTransactions :=
                             fmupd transactionId (transaction1\<lparr>tx_status := Approved\<rparr>)
                               (pendingTransactions st2)\<rparr>
                 in (Inr True,
                     executeTransaction env cfg now transactionId (tx_type transaction1)
                       (tx_data transaction1) (tx_value transaction1) st3)
               else (Inr False, st2))"

text \<open>\<open>secureTransaction\<close>; the identifier that \<open>crypto.randomUUID()\<close> draws is the
  parameter \<open>ident\<close>.\<close>

definition secureTransaction ::
  "environment \<Rightarrow> security_config \<Rightarrow> nat \<Rightarrow> string \<Rightarrow> string \<Rightarrow> json \<Rightarrow> real
     \<Rightarrow> security_state \<Rightarrow> (sec_error + string) \<times> security_state" where
  "secureTransaction env cfg now ident type data v st =
     (let securityLevel = getSecurityLevel cfg v;
          st1 = logToAudit env now ''transaction_created''
                  (JObj [(''transactionId'', JStr ident), (''type'', JStr type),
                         (''value'', JNum v),
                         (''securityLevel'', JStr (level_name securityLevel))]) st
      in if securityLevel = Low
         then (Inr ident, executeTransaction env cfg now ident type data v st1)
         else if multiSig_enable cfg \<and> securityLevel \<noteq> Low
         then
           let st2 = st1\<lparr>pendingTransactions :=
                       fmupd ident
                         \<lparr>tx_id = ident, tx_type = type, tx_data = data, tx_value = v,
                          tx_timestamp = now, tx_signatures = fmempty, tx_status = Pending\<rparr>
                         (pendingTransactions st1)\<rparr>
           in (case signTransaction env cfg now ident (walletAddress env) st2 of
                 (Inl e, st3) \<Rightarrow> (Inl e, st3)
               | (Inr _, st3) \<Rightarrow> (Inr ident, st3))
         else (Inr ident, executeTransaction env cfg now ident type data v st1))"

text \<open>The view of one transaction that \<open>getPendingTransactions\<close> and the claims read.\<close>

definition signatureCount :: "security_state \<Rightarrow> string \<Rightarrow> nat option" where
  "signatureCount st ident =
     map_option (\<lambda>t. fcard (fmdom (tx_signatures t))) (fmlookup (pendingTransactions st) ident)"

definition statusOf :: "security_state \<Rightarrow> string \<Rightarrow> tx_status option" where
  "statusOf st ident = map_option tx_status (fmlookup (pendingTransactions st) ident)"

definition signersOf :: "security_state \<Rightarrow> string \<Rightarrow> string fset" where
  "signersOf st ident =
     (case fmlookup (pendingTransactions st) ident of
        None \<Rightarrow> {||}
      | Some t \<Rightarrow> fmdom (tx_signatures t))"

definition createDefaultSecurityConfig :: "string \<Rightarrow> security_config" where
  "createDefaultSecurityConfig addr =
     \<lparr>multiSig_enable = True, requiredSignatures = 2,
      authorizedAddresses = [addr, ''0x0000000000000000000000000000000000000000''],
      tier1_maxAmount = 1000, tier1_securityLevel = Low,
      tier2_maxAmount = 10000, tier2_securityLevel = Medium,
      tier3_maxAmount = 9007199254740991, tier3_securityLevel = High\<rparr>"

definition initialState :: security_state where
  "initialState = \<lparr>pendingTransactions = fmempty, transactionHistory = [], auditLog = []\<rparr>"


section \<open>Exchange types (\<open>src/bot/types/index.ts\<close>)\<close>

datatype order_side = Buy | Sell

datatype order_type = LimitOrder | MarketOrder | StopLimitOrder | StopMarketOrder

datatype order_status =
  StatusNew | StatusPartiallyFilled | StatusFilled | StatusCanceled | StatusRejected
  | StatusExpired

record order =
  o_id :: string
  o_symbol :: string
  o_side :: order_side
  o_type :: order_type
  o_price :: real
  o_size :: real
  o_status :: order_status
  o_filledSize :: real
  o_avgFillPrice :: real
  o_timestamp :: nat
  o_clientOrderId :: "string option"

text \<open>The \<open>Partial<Order>\<close> that the managers hand to \<open>api.placeOrder\<close>.\<close>

record order_request =
  r_symbol :: string
  r_side :: order_side
  r_type :: order_type
  r_price :: real
  r_size :: real
  r_clientOrderId :: string

datatype margin_type = Isolated | Cross

record position =
  p_symbol :: string
  p_size :: real
  p_entryPrice :: real
  p_markPrice :: real
  p_liquidationPrice :: real
  p_unrealizedPnl :: real
  p_realizedPnl :: real
  p_leverage :: real
  p_marginType :: margin_type

record market_data =
  m_symbol :: string
  m_lastPrice :: real
  m_markPrice :: real
  m_indexPrice :: real
  m_fundingRate :: real
  m_volume24h :: real
  m_openInterest :: real

record order_book =
  ob_asks :: "(real \<times> real) list"
  ob_bids :: "(real \<times> real) list"
  ob_timestamp :: nat

record price_point =
  pp_timestamp :: int
  pp_price :: real

text \<open>The exchange as the managers see it: \<open>placeOrder\<close> answers with the order or throws
  (\<open>None\<close>), \<open>cancelOrder\<close> succeeds or throws (\<open>False\<close>). \<open>newClientOrderId k\<close> is the
  correlation id (built from the clock and a random number) of the \<open>k\<close>-th request.\<close>

record exchange =
  placeOrder :: "order_request \<Rightarrow> order option"
  cancelOrder :: "string \<Rightarrow> string \<Rightarrow> bool"
  newClientOrderId :: "nat \<Rightarrow> string"

section \<open>Quoting engine (\<open>MarketMaker\<close>)\<close>

subsection \<open>Data\<close>

datatype rebalance_strategy = Passive | Aggressive

record market_making_config =
  baseTiers_tier1 :: real
  baseTiers_tier2 :: real
  baseTiers_tier3 :: real
  thresholds_medium :: real
  thresholds_high :: real
  imbalance_enable :: bool
  imbalance_threshold :: real
  imbalance_adjustmentFactor :: real
  targetRatio :: real
  maxImbalance :: real
  rebalanceStrategy :: rebalance_strategy
  minOrderSize :: real
  maxOrderSize :: real
  orderSizeIncrement :: real
  priceIncrement :: real
  maxOpenOrders :: int
  layering_enable :: bool
  layering_levels :: int
  layering_sizeMultiplier :: real
  layering_spreadMultiplier :: real

record volatility_metrics =
  vm_short :: real
  vm_medium :: real
  vm_long :: real

text \<open>\<open>activeOrders\<close> keeps the insertion order of the \<open>Map\<close>: a list of pairs whose keys
  are kept distinct by the two operations used on it.\<close>

record market_maker_state =
  activeOrders :: "(string \<times> order) list"
  orderBooks :: "(string, order_book) fmap"
  marketData :: "(string, market_data) fmap"
  positions :: "(string, position) fmap"
  volatilityMetrics :: "(string, volatility_metrics) fmap"
  historicalPrices :: "(string, price_point list) fmap"

datatype mm_error = MissingData string | MMTypeError

subsection \<open>Numeric helpers\<close>

text \<open>\<open>Math.floor(x / step) * step\<close> and \<open>Math.ceil(x / step) * step\<close>.\<close>

definition floorTo :: "real \<Rightarrow> real \<Rightarrow> real" where
  "floorTo step x = of_int \<lfloor>x / step\<rfloor> * step"

definition ceilTo :: "real \<Rightarrow> real \<Rightarrow> real" where
  "ceilTo step x = of_int \<lceil>x / step\<rceil> * step"

text \<open>\<open>levels[0]?.[0] || 0\<close>: the price of the first level, 0 on an empty side.\<close>

definition bestPrice :: "(real \<times> real) list \<Rightarrow> real" where
  "bestPrice levels = (case levels of [] \<Rightarrow> 0 | (price, _) # _ \<Rightarrow> price)"

text \<open>\<open>levels.slice(0, 10).reduce((sum, [_, size]) => sum + size, 0)\<close>.\<close>

definition topVolume :: "(real \<times> real) list \<Rightarrow> real" where
  "topVolume levels = foldl (\<lambda>sum (_, qty). sum + qty) 0 (take 10 levels)"

subsection \<open>Prices\<close>

definition imbalanceRatio :: "order_book \<Rightarrow> real" where
  "imbalanceRatio orderBook =
     (let bidVolume = topVolume (ob_bids orderBook);
          askVolume = topVolume (ob_asks orderBook);
          totalVolume = bidVolume + askVolume
      in if totalVolume > 0 then (bidVolume - askVolume) / totalVolume else 0)"

text \<open>\<open>calculateImbalanceAdjustment\<close>. Its own mid price reads \<open>bids[0][0]\<close> and
  \<open>asks[0][0]\<close> without a guard, a \<open>TypeError\<close> on an empty side.\<close>

definition calculateImbalanceAdjustment ::
  "market_making_config \<Rightarrow> market_maker_state \<Rightarrow> string \<Rightarrow> mm_error + real" where
  "calculateImbalanceAdjustment cfg st symbol =
     (case fmlookup (orderBooks st) symbol of
        None \<Rightarrow> Inr 0
      | Some orderBook \<Rightarrow>
          let ratio = imbalanceRatio orderBook;
              threshold = imbalance_threshold cfg
          in if \<bar>ratio\<bar> < threshold then Inr 0
             else
               let adjustmentFactor = imbalance_adjustmentFactor cfg
               in (case (ob_bids orderBook, ob_asks orderBook) of
                     ((bid0, _) # _, (ask0, _) # _) \<Rightarrow>
                       Inr ((bid0 + ask0) / 2 * ratio * adjustmentFactor)
                   | _ \<Rightarrow> Inl MMTypeError))"

definition selectSpreadTier ::
  "market_making_config \<Rightarrow> volatility_metrics option \<Rightarrow> real" where
  "selectSpreadTier cfg volatility =
     (case volatility of
        None \<Rightarrow> baseTiers_tier1 cfg
      | Some v \<Rightarrow>
          if vm_short v > thresholds_high cfg then baseTiers_tier3 cfg
          else if vm_short v > thresholds_medium cfg then baseTiers_tier2 cfg
          else baseTiers_tier1 cfg)"

definition calculateOptimalPrices ::
  "market_making_config \<Rightarrow> market_maker_state \<Rightarrow> string \<Rightarrow> mm_error + (real \<times> real)" where
  "calculateOptimalPrices cfg st symbol =
     (case (fmlookup (orderBooks st) symbol, fmlookup (marketData st) symbol) of
        (Some orderBook, Some market) \<Rightarrow>
          let bestBid = bestPrice (ob_bids orderBook);
              bestAsk = bestPrice (ob_asks orderBook);
              midPrice = (bestBid + bestAsk) / 2;
              spreadTier = selectSpreadTier cfg (fmlookup (volatilityMetrics st) symbol);
              spreadPercentage = spreadTier / 100;
              halfSpread = midPrice * spreadPercentage / 2
          in (case (if imbalance_enable cfg then calculateImbalanceAdjustment cfg st symbol
                    else Inr 0) of
                Inl e \<Rightarrow> Inl e
              | Inr imbalanceAdjustment \<Rightarrow>
                  let bidPrice = midPrice - halfSpread - imbalanceAdjustment;
                      askPrice = midPrice + halfSpread + imbalanceAdjustment;
                      increment = priceIncrement cfg
                  in Inr (floorTo increment bidPrice, ceilTo increment askPrice))
      | _ \<Rightarrow> Inl (MissingData symbol))"

subsection \<open>Sizes\<close>

definition calculateBaseOrderSize ::
  "market_making_config \<Rightarrow> market_maker_state \<Rightarrow> string \<Rightarrow> real" where
  "calculateBaseOrderSize cfg st symbol =
     (case fmlookup (marketData st) symbol of
        None \<Rightarrow> minOrderSize cfg
      | Some market \<Rightarrow>
          let volumePercentage = 0.001;
              baseSize = m_volume24h market * volumePercentage
          in max (minOrderSize cfg) (min (maxOrderSize cfg) baseSize))"

text \<open>The first half of \<open>calculateOrderSizes\<close>: the inventory skew and the two sizes it
  gives, before they are limited and rounded.\<close>

definition inventorySkew ::
  "market_making_config \<Rightarrow> market_maker_state \<Rightarrow> string \<Rightarrow> real" where
  "inventorySkew cfg st symbol =
     (let positionSize = (case fmlookup (positions st) symbol of
                            None \<Rightarrow> 0 | Some position \<Rightarrow> p_size position);
          baseOrderSize = calculateBaseOrderSize cfg st symbol
      in if positionSize \<noteq> 0
         then max (- 1) (min 1 (positionSize / (baseOrderSize * maxImbalance cfg)))
         else 0)"

definition skewedOrderSizes ::
  "market_making_config \<Rightarrow> market_maker_state \<Rightarrow> string \<Rightarrow> real \<times> real" where
  "skewedOrderSizes cfg st symbol =
     (let baseOrderSize = calculateBaseOrderSize cfg st symbol;
          target = targetRatio cfg;
          skew = inventorySkew cfg st symbol;
          inventoryAdjustmentFactor = 1 - \<bar>skew\<bar>
      in if skew > 0
         then (if rebalanceStrategy cfg = Aggressive
               then baseOrderSize * inventoryAdjustmentFactor else baseOrderSize,
               baseOrderSize * (2 - target - skew * (1 - target)))
         else if skew < 0
         then (baseOrderSize * (1 + target + skew * target),
               if rebalanceStrategy cfg = Aggressive
               then baseOrderSize * inventoryAdjustmentFactor else baseOrderSize)
         else (baseOrderSize, baseOrderSize))"

text \<open>The second half: limit to the configured range, then round down to the size
  increment.\<close>

definition limitAndRound :: "market_making_config \<Rightarrow> real \<Rightarrow> real" where
  "limitAndRound cfg qty =
     floorTo (orderSizeIncrement cfg) (max (minOrderSize cfg) (min (maxOrderSize cfg) qty))"

definition calculateOrderSizes ::
  "market_making_config \<Rightarrow> market_maker_state \<Rightarrow> string \<Rightarrow> real \<times> real" where
  "calculateOrderSizes cfg st symbol =
     (let (bidSize, askSize) = skewedOrderSizes cfg st symbol
      in (limitAndRound cfg bidSize, limitAndRound cfg askSize))"

subsection \<open>Order refresh\<close>

text \<open>The quoting functions return, next to the state, the requests handed to
  \<open>api.placeOrder\<close> so far, in order.\<close>

definition placeLimitOrder ::
  "exchange \<Rightarrow> market_making_config \<Rightarrow> string \<Rightarrow> order_side \<Rightarrow> real \<Rightarrow> real
     \<Rightarrow> market_maker_state \<times> order_request list \<Rightarrow> market_maker_state \<times> order_request list"
  where
  "placeLimitOrder ex cfg symbol side price qty acc =
     (let st = fst acc; sent = snd acc;
          symbolOrders = filter (\<lambda>order. o_symbol order = symbol) (map snd (activeOrders st))
      in if int (length symbolOrders) \<ge> maxOpenOrders cfg then (st, sent)
         else
           let request = \<lparr>r_symbol = symbol, r_side = side, r_type = LimitOrder,
                          r_price = price, r_size = qty,
                          r_clientOrderId = newClientOrderId ex (length sent)\<rparr>
           in (case placeOrder ex request of
                 None \<Rightarrow> (st, sent @ [request])
               | Some order \<Rightarrow>
                   (st\<lparr>activeOrders := AList.update (o_id order) order (activeOrders st)\<rparr>,
                    sent @ [request])))"

definition cancelOrdersForSymbol ::
  "exchange \<Rightarrow> string \<Rightarrow> market_maker_state \<Rightarrow> market_maker_state" where
  "cancelOrdersForSymbol ex symbol st =
     (let symbolOrders = filter (\<lambda>order. o_symbol order = symbol) (map snd (activeOrders st))
      in foldl (\<lambda>s order.
                  if cancelOrder ex symbol (o_id order)
                  then s\<lparr>activeOrders := AList.delete (o_id order) (activeOrders s)\<rparr>
                  else s)
           st symbolOrders)"

text \<open>One pass of each loop of \<open>placeLayeredOrders\<close>, for level \<open>i\<close>.\<close>

definition placeBidLayer ::
  "exchange \<Rightarrow> market_making_config \<Rightarrow> string \<Rightarrow> real \<Rightarrow> real
     \<Rightarrow> market_maker_state \<times> order_request list \<Rightarrow> nat
     \<Rightarrow> market_maker_state \<times> order_request list" where
  "placeBidLayer ex cfg symbol baseBidPrice baseBidSize acc i =
     (let priceDelta = baseBidPrice * layering_spreadMultiplier cfg * real i / 100;
          layerPrice = floorTo (priceIncrement cfg) (baseBidPrice - priceDelta);
          layerSize = of_int \<lfloor>baseBidSize * layering_sizeMultiplier cfg ^ i\<rfloor>
      in if layerSize \<ge> minOrderSize cfg
         then placeLimitOrder ex cfg symbol Buy layerPrice layerSize acc
         else acc)"

definition placeAskLayer ::
  "exchange \<Rightarrow> market_making_config \<Rightarrow> string \<Rightarrow> real \<Rightarrow> real
     \<Rightarrow> market_maker_state \<times> order_request list \<Rightarrow> nat
     \<Rightarrow> market_maker_state \<times> order_request list" where
  "placeAskLayer ex cfg symbol baseAskPrice baseAskSize acc i =
     (let priceDelta = baseAskPrice * layering_spreadMultiplier cfg * real i / 100;
          layerPrice = ceilTo (priceIncrement cfg) (baseAskPrice + priceDelta);
          layerSize = of_int \<lfloor>baseAskSize * layering_sizeMultiplier cfg ^ i\<rfloor>
      in if layerSize \<ge> minOrderSize cfg
         then placeLimitOrder ex cfg symbol Sell layerPrice layerSize acc
         else acc)"

definition placeLayeredOrders ::
  "exchange \<Rightarrow> market_making_config \<Rightarrow> string \<Rightarrow> real \<Rightarrow> real \<Rightarrow> real \<Rightarrow> real
     \<Rightarrow> market_maker_state \<times> order_request list \<Rightarrow> market_maker_state \<times> order_request list"
  where
  "placeLayeredOrders ex cfg symbol baseBidPrice baseAskPrice baseBidSize baseAskSize acc =
     (let levels = [1 ..< Suc (nat (layering_levels cfg))];
          afterBids = foldl (placeBidLayer ex cfg symbol baseBidPrice baseBidSize) acc levels
      in foldl (placeAskLayer ex cfg symbol baseAskPrice baseAskSize) afterBids levels)"

text \<open>The two guarded calls of \<open>refreshOrdersForSymbol\<close> that place the base quotes.\<close>

definition placeBaseQuotes ::
  "exchange \<Rightarrow> market_making_config \<Rightarrow> string \<Rightarrow> real \<Rightarrow> real \<Rightarrow> real \<Rightarrow> real
     \<Rightarrow> market_maker_state \<Rightarrow> market_maker_state \<times> order_request list" where
  "placeBaseQuotes ex cfg symbol bidPrice askPrice bidSize askSize st =
     (let smallest = minOrderSize cfg;
          a1 = (if bidSize \<ge> smallest
                then placeLimitOrder ex cfg symbol Buy bidPrice bidSize (st, [])
                else (st, []))
      in if askSize \<ge> smallest
         then placeLimitOrder ex cfg symbol Sell askPrice askSize a1
         else a1)"

text \<open>\<open>refreshOrdersForSymbol\<close>: the error a throw of \<open>calculateOptimalPrices\<close> carries
  out of it (if any), the state, and the requests submitted during the pass.\<close>

definition refreshOrdersForSymbol ::
  "exchange \<Rightarrow> market_making_config \<Rightarrow> string \<Rightarrow> market_maker_state
     \<Rightarrow> mm_error option \<times> market_maker_state \<times> order_request list" where
  "refreshOrdersForSymbol ex cfg symbol st =
     (case (fmlookup (orderBooks st) symbol, fmlookup (marketData st) symbol) of
        (Some orderBook, Some market) \<Rightarrow>
          (case calculateOptimalPrices cfg st symbol of
             Inl e \<Rightarrow> (Some e, st, [])
           | Inr (bidPrice, askPrice) \<Rightarrow>
               let (bidSize, askSize) = calculateOrderSizes cfg st symbol;
                   st1 = cancelOrdersForSymbol ex symbol st;
                   a2 = placeBaseQuotes ex cfg symbol bidPrice askPrice bidSize askSize st1;
                   a3 = (if layering_enable cfg
                         then placeLayeredOrders ex cfg symbol bidPrice askPrice bidSize askSize a2
                         else a2)
               in (None, fst a3, snd a3))
      | _ \<Rightarrow> (None, st, []))"

text \<open>The requests of one pass.\<close>

definition submitted ::
  "exchange \<Rightarrow> market_making_config \<Rightarrow> string \<Rightarrow> market_maker_state \<Rightarrow> order_request list"
  where
  "submitted ex cfg symbol st = snd (snd (refreshOrdersForSymbol ex cfg symbol st))"

subsection \<open>Volatility\<close>

text \<open>The \<open>for\<close> loop that turns successive prices into per-tick returns, and the
  standard deviation computed from them; \<open>calculateVolatility\<close> and the risk manager's
  \<open>calculateCircuitBreakerVolatility\<close> contain the same statements for both.\<close>

fun tickReturns :: "real list \<Rightarrow> real list" where
  "tickReturns (prevPrice # currentPrice # rest) =
     (currentPrice - prevPrice) / prevPrice # tickReturns (currentPrice # rest)"
| "tickReturns _ = []"

definition stdDevOf :: "real list \<Rightarrow> real" where
  "stdDevOf returns =
     (let mean = foldl (+) 0 returns / real (length returns);
          squaredDiffs = map (\<lambda>v. (v - mean) ^ 2) returns;
          variance = foldl (+) 0 squaredDiffs / real (length squaredDiffs)
      in sqrt variance)"

definition calculateVolatility :: "market_maker_state \<Rightarrow> string \<Rightarrow> int \<Rightarrow> real" where
  "calculateVolatility st symbol startTime =
     (case fmlookup (historicalPrices st) symbol of
        None \<Rightarrow> 0
      | Some history \<Rightarrow>
          if length history < 2 then 0
          else
            let periodHistory = filter (\<lambda>point. pp_timestamp point \<ge> startTime) history
            in if length periodHistory < 2 then 0
               else
                 let stdDev = stdDevOf (tickReturns (map pp_price periodHistory));
                     annualizationFactor = sqrt 525600;
                     annualizedVolatility = stdDev * annualizationFactor
                 in annualizedVolatility * 100)"

definition createDefaultMarketMakingConfig :: market_making_config where
  "createDefaultMarketMakingConfig =
     \<lparr>baseTiers_tier1 = 0.1, baseTiers_tier2 = 0.2, baseTiers_tier3 = 0.5,
      thresholds_medium = 50, thresholds_high = 100,
      imbalance_enable = True, imbalance_threshold = 0.2, imbalance_adjustmentFactor = 0.5,
      targetRatio = 0.5, maxImbalance = 5, rebalanceStrategy = Passive,
      minOrderSize = 0.001, maxOrderSize = 1.0, orderSizeIncrement = 0.001,
      priceIncrement = 0.01, maxOpenOrders = 10,
      layering_enable = True, layering_levels = 3,
      layering_sizeMultiplier = 1.5, layering_spreadMultiplier = 1.0\<rparr>"

section \<open>Risk engine (\<open>RiskManager\<close>)\<close>

subsection \<open>Data\<close>

record risk_config =
  stopLoss_enable :: bool
  stopLoss_percentage :: real
  stopLoss_trailingEnable :: bool
  stopLoss_trailingPercentage :: real
  circuitBreakers_enable :: bool
  circuitBreakers_volatilityThreshold :: real
  circuitBreakers_timeWindow :: int
  circuitBreakers_cooldownPeriod :: int

record circuit_breaker =
  cb_triggered :: bool
  cb_cooldownUntil :: int
  cb_lastVolatility :: real
  cb_priceHistory :: "price_point list"

record risk_state =
  riskPositions :: "(string, position) fmap"
  stopLossOrders :: "(string, order) fmap"
  takeProfitOrders :: "(string, order) fmap"
  circuitBreakers :: "(string, circuit_breaker) fmap"

subsection \<open>Circuit-breaker volatility\<close>

definition calculateCircuitBreakerVolatility :: "risk_state \<Rightarrow> string \<Rightarrow> real" where
  "calculateCircuitBreakerVolatility st symbol =
     (case fmlookup (circuitBreakers st) symbol of
        None \<Rightarrow> 0
      | Some circuitBreaker \<Rightarrow>
          if length (cb_priceHistory circuitBreaker) < 2 then 0
          else
            let priceHistory = cb_priceHistory circuitBreaker;
                stdDev = stdDevOf (tickReturns (map pp_price priceHistory));
                secondsInYear = 365 * 24 * 60 * 60;
                annualizationFactor = sqrt (secondsInYear / real (length priceHistory - 1));
                annualizedVolatility = stdDev * annualizationFactor * 100
            in annualizedVolatility)"

subsection \<open>Trailing stop-loss\<close>

text \<open>\<open>parseFloat(x.toFixed(2))\<close>: the nearest multiple of 0.01, a tie going away from
  zero.\<close>

definition toFixed2 :: "real \<Rightarrow> real" where
  "toFixed2 x = (if x < 0 then - (of_int \<lfloor>- x * 100 + 1 / 2\<rfloor> / 100)
                 else of_int \<lfloor>x * 100 + 1 / 2\<rfloor> / 100)"

text \<open>The candidate stop of one tick, as the function computes it.\<close>

definition trailingCandidate :: "risk_config \<Rightarrow> position \<Rightarrow> real \<Rightarrow> real" where
  "trailingCandidate cfg position currentPrice =
     (let isLong = p_size position > 0;
          trailingPercentage = stopLoss_trailingPercentage cfg / 100;
          trailingDistance = currentPrice * trailingPercentage
      in if isLong then currentPrice - trailingDistance else currentPrice + trailingDistance)"

text \<open>\<open>updateTrailingStopLossForPosition\<close> is an \<open>async\<close> function, and neither
  \<open>checkStopLossAndTakeProfit\<close> nor \<open>updateTrailingStopLoss\<close> awaits it. It runs in three
  synchronous segments, cut at \<open>await this.api.cancelOrder(...)\<close> and at
  \<open>await this.api.placeOrder(...)\<close>; between two segments any listener and any other
  continuation may run. What a call carries from one segment to the next are its
  parameters and the locals \<open>stopLossOrder\<close> and \<open>newStopPrice\<close>.\<close>

record trailing_call =
  tc_position :: position
  tc_positionId :: string
  tc_stopLossOrder :: order
  tc_newStopPrice :: real

text \<open>First segment, from the entry to the first \<open>await\<close>: it reads the stop order and
  compares, and writes nothing. \<open>None\<close>: the function returns (no stop order, or
  \<open>shouldUpdate\<close> is false); otherwise the cancellation has been requested.\<close>

definition trailingReadAndCompare ::
  "risk_config \<Rightarrow> position \<Rightarrow> real \<Rightarrow> string \<Rightarrow> risk_state \<Rightarrow> trailing_call option" where
  "trailingReadAndCompare cfg position currentPrice positionId st =
     (case fmlookup (stopLossOrders st) positionId of
        None \<Rightarrow> None
      | Some stopLossOrder \<Rightarrow>
          let isLong = p_size position > 0;
              newStopPrice = trailingCandidate cfg position currentPrice;
              shouldUpdate = (if isLong then newStopPrice > o_price stopLossOrder
                              else newStopPrice < o_price stopLossOrder)
          in if shouldUpdate
             then Some \<lparr>tc_position = position, tc_positionId = positionId,
                        tc_stopLossOrder = stopLossOrder, tc_newStopPrice = newStopPrice\<rparr>
             else None)"

text \<open>Second segment, from the answer to the cancellation to the second \<open>await\<close>: a
  rejected cancellation goes to the \<open>catch\<close> (nothing written, no request); otherwise the
  entry of the position is deleted, whichever order it holds by now, and the new stop is
  requested at the rounded price.\<close>

definition trailingAfterCancel ::
  "exchange \<Rightarrow> nat \<Rightarrow> trailing_call \<Rightarrow> risk_state \<Rightarrow> risk_state \<times> order_request option" where
  "trailingAfterCancel ex now call st =
     (let position = tc_position call;
          isLong = p_size position > 0
      in if cancelOrder ex (p_symbol position) (o_id (tc_stopLossOrder call))
         then
           let st1 = st\<lparr>stopLossOrders := fmdrop (tc_positionId call) (stopLossOrders st)\<rparr>;
               rounded = toFixed2 (tc_newStopPrice call);
               side = (if isLong then Sell else Buy);
               qty = \<bar>p_size position\<bar>
           in (st1, Some \<lparr>r_symbol = p_symbol position, r_side = side,
                           r_type = StopMarketOrder, r_price = rounded, r_size = qty,
                           r_clientOrderId = ''sl-'' @ decimal now\<rparr>)
         else (st, None))"

text \<open>Third segment, from the answer to the placement to the end: the answered order is
  stored under the position, over whatever is there; a rejected placement goes to the
  \<open>catch\<close>.\<close>

definition trailingAfterPlace ::
  "exchange \<Rightarrow> trailing_call \<Rightarrow> order_request \<Rightarrow> risk_state \<Rightarrow> risk_state" where
  "trailingAfterPlace ex call request st =
     (case placeOrder ex request of
        None \<Rightarrow> st
      | Some order \<Rightarrow>
          st\<lparr>stopLossOrders := fmupd (tc_positionId call) order (stopLossOrders st)\<rparr>)"

subsection \<open>The manager's event loop\<close>

text \<open>A call that waits for an answer of the exchange.\<close>

datatype continuation =
    AwaitingCancel trailing_call
  | AwaitingPlace trailing_call order_request

record risk_loop =
  rl_state :: risk_state
  rl_pending :: "continuation list"

text \<open>\<open>checkStopLossAndTakeProfit\<close>: it starts the update, whose first segment runs at
  once, and returns without awaiting the rest.\<close>

definition checkStopLossAndTakeProfit ::
  "risk_config \<Rightarrow> position \<Rightarrow> real \<Rightarrow> risk_loop \<Rightarrow> risk_loop" where
  "checkStopLossAndTakeProfit cfg position currentPrice loop =
     (if p_size position = 0 then loop
      else
        let symbol = p_symbol position;
            isLong = p_size position > 0;
            positionId = symbol @ ''-'' @ (if isLong then ''long'' else ''short'')
        in if stopLoss_enable cfg \<and> stopLoss_trailingEnable cfg
           then (case trailingReadAndCompare cfg position currentPrice positionId
                        (rl_state loop) of
                   None \<Rightarrow> loop
                 | Some call \<Rightarrow> loop\<lparr>rl_pending := rl_pending loop @ [AwaitingCancel call]\<rparr>)
           else loop)"

text \<open>The \<open>market\<close> listener, as far as stop orders go: the position of the symbol, if
  there is one, is checked against the last price.\<close>

definition onMarket :: "risk_config \<Rightarrow> string \<Rightarrow> real \<Rightarrow> risk_loop \<Rightarrow> risk_loop" where
  "onMarket cfg symbol lastPrice loop =
     (case fmlookup (riskPositions (rl_state loop)) symbol of
        None \<Rightarrow> loop
      | Some position \<Rightarrow> checkStopLossAndTakeProfit cfg position lastPrice loop)"

text \<open>The \<open>order\<close> listener: every tracked order with the id of the reported one is
  dropped when the report is final (filled, canceled, rejected, expired) and replaced by
  the report otherwise.\<close>

definition trackOrder :: "order \<Rightarrow> (string, order) fmap \<Rightarrow> (string, order) fmap" where
  "trackOrder order tracked =
     (if o_status order \<in> {StatusFilled, StatusCanceled, StatusRejected, StatusExpired}
      then fmfilter (\<lambda>positionId.
               map_option o_id (fmlookup tracked positionId) \<noteq> Some (o_id order)) tracked
      else fmmap (\<lambda>held. if o_id held = o_id order then order else held) tracked)"

definition onOrder :: "order \<Rightarrow> risk_loop \<Rightarrow> risk_loop" where
  "onOrder order loop =
     loop\<lparr>rl_state := (rl_state loop)
            \<lparr>stopLossOrders := trackOrder order (stopLossOrders (rl_state loop)),
             takeProfitOrders := trackOrder order (takeProfitOrders (rl_state loop))\<rparr>\<rparr>"

text \<open>The answer to the request of the \<open>i\<close>-th waiting call arrives: the call runs its next
  segment.\<close>

definition resume :: "exchange \<Rightarrow> nat \<Rightarrow> nat \<Rightarrow> risk_loop \<Rightarrow> risk_loop" where
  "resume ex now i loop =
     (let pending = rl_pending loop;
          others = take i pending @ drop (Suc i) pending
      in if i < length pending
         then (case pending ! i of
                 AwaitingCancel call \<Rightarrow>
                   (case trailingAfterCancel ex now call (rl_state loop) of
                      (st1, None) \<Rightarrow> \<lparr>rl_state = st1, rl_pending = others\<rparr>
                    | (st1, Some request) \<Rightarrow>
                        \<lparr>rl_state = st1,
                         rl_pending = pending[i := AwaitingPlace call request]\<rparr>)
               | AwaitingPlace call request \<Rightarrow>
                   \<lparr>rl_state = trailingAfterPlace ex call request (rl_state loop),
                    rl_pending = others\<rparr>)
         else loop)"

datatype loop_event =
    Market string real
  | OrderReport order
  | Answer nat nat

fun handle :: "exchange \<Rightarrow> risk_config \<Rightarrow> risk_loop \<Rightarrow> loop_event \<Rightarrow> risk_loop" where
  "handle ex cfg loop (Market symbol lastPrice) = onMarket cfg symbol lastPrice loop"
| "handle ex cfg loop (OrderReport order) = onOrder order loop"
| "handle ex cfg loop (Answer i now) = resume ex now i loop"

definition runEvents ::
  "exchange \<Rightarrow> risk_config \<Rightarrow> loop_event list \<Rightarrow> risk_loop \<Rightarrow> risk_loop" where
  "runEvents ex cfg events loop = foldl (handle ex cfg) loop events"

text \<open>The price of the stop order tracked for a position.\<close>

definition stopPrice :: "risk_loop \<Rightarrow> string \<Rightarrow> real option" where
  "stopPrice loop positionId =
     map_option o_price (fmlookup (stopLossOrders (rl_state loop)) positionId)"

definition createDefaultRiskConfig :: risk_config where
  "createDefaultRiskConfig =
     \<lparr>stopLoss_enable = True, stopLoss_percentage = 5,
      stopLoss_trailingEnable = True, stopLoss_trailingPercentage = 2,
      circuitBreakers_enable = True, circuitBreakers_volatilityThreshold = 100,
      circuitBreakers_timeWindow = 5, circuitBreakers_cooldownPeriod = 15\<rparr>"

section \<open>Performance ledger (\<open>src/bot/core/analytics.ts\<close>)\<close>

subsection \<open>Data\<close>





subsection \<open>Grouping\<close>

text \<open>\<open>(order.clientOrderId || order.id).split("-")[0]\<close>.\<close>

definition baseIdOf :: "order \<Rightarrow> string" where
  "baseIdOf order =
     (let clientId = (case o_clientOrderId order of
                        None \<Rightarrow> o_id order
                      | Some c \<Rightarrow> if c = [] then o_id order else c)
      in takeWhile (\<lambda>ch. ch \<noteq> CHR ''-'') clientId)"

text \<open>\<open>orderGroups\<close> is a \<open>Map\<close> from base id to the orders pushed under it, in insertion
  order.\<close>

fun pushToGroup :: "string \<Rightarrow> order \<Rightarrow> (string \<times> order list) list \<Rightarrow> (string \<times> order list) list"
  where
  "pushToGroup baseId order [] = [(baseId, [order])]"
| "pushToGroup baseId order ((key, orders) # groups) =
     (if key = baseId then (key, orders @ [order]) # groups
      else (key, orders) # pushToGroup baseId order groups)"

definition groupOrders :: "order list \<Rightarrow> (string \<times> order list) list" where
  "groupOrders symbolOrders =
     foldl (\<lambda>groups order. pushToGroup (baseIdOf order) order groups) [] symbolOrders"

subsection \<open>Profit and loss of a group\<close>





subsection \<open>Win/loss statistics\<close>










section \<open>Concrete inputs\<close>

text \<open>Inputs at which the results below are instantiated. The hash and the serialiser of
  the sample environment are stand-ins: no result depends on what they compute.\<close>

definition sampleEnvironment :: environment where
  "sampleEnvironment = \<lparr>sha256 = (\<lambda>s. s), stringify = (\<lambda>j. []), walletAddress = ''0xb07''\<rparr>"

definition sampleSecured :: security_state where
  "sampleSecured = snd (secureTransaction sampleEnvironment (createDefaultSecurityConfig ''0xb07'')
      7 ''tx-1'' ''order'' JNull 5000 initialState)"


definition sampleBook :: order_book where
  "sampleBook = \<lparr>ob_asks = [(102, 10)], ob_bids = [(100, 30)], ob_timestamp = 0\<rparr>"

definition sampleMarketData :: market_data where
  "sampleMarketData = \<lparr>m_symbol = ''BTC-USDT'', m_lastPrice = 101, m_markPrice = 101,
     m_indexPrice = 101, m_fundingRate = 0, m_volume24h = 500, m_openInterest = 0\<rparr>"

definition samplePosition :: position where
  "samplePosition = \<lparr>p_symbol = ''BTC-USDT'', p_size = 1.25, p_entryPrice = 100,
     p_markPrice = 101, p_liquidationPrice = 50, p_unrealizedPnl = 0, p_realizedPnl = 0,
     p_leverage = 1, p_marginType = Cross\<rparr>"

definition sampleQuoting :: market_maker_state where
  "sampleQuoting = \<lparr>activeOrders = [],
     orderBooks = fmupd ''BTC-USDT'' sampleBook fmempty,
     marketData = fmupd ''BTC-USDT'' sampleMarketData fmempty,
     positions = fmupd ''BTC-USDT'' samplePosition fmempty,
     volatilityMetrics = fmempty,
     historicalPrices = fmempty\<rparr>"

definition quotingWithoutImbalance :: market_making_config where
  "quotingWithoutImbalance = createDefaultMarketMakingConfig\<lparr>imbalance_enable := False\<rparr>"

definition askHeavyBook :: order_book where
  "askHeavyBook = \<lparr>ob_asks = [(102, 30)], ob_bids = [(100, 10)], ob_timestamp = 0\<rparr>"

definition askHeavyQuoting :: market_maker_state where
  "askHeavyQuoting = sampleQuoting\<lparr>orderBooks := fmupd ''BTC-USDT'' askHeavyBook fmempty\<rparr>"

definition sampleExchange :: exchange where
  "sampleExchange =
     \<lparr>placeOrder = (\<lambda>r. Some \<lparr>o_id = r_clientOrderId r, o_symbol = r_symbol r,
          o_side = r_side r, o_type = r_type r, o_price = r_price r, o_size = r_size r,
          o_status = StatusNew, o_filledSize = 0, o_avgFillPrice = 0, o_timestamp = 0,
          o_clientOrderId = Some (r_clientOrderId r)\<rparr>),
      cancelOrder = (\<lambda>symbol ident. True),
      newClientOrderId = (\<lambda>k. ''mm-'' @ replicate k (CHR ''1''))\<rparr>"

definition offGridMinimum :: market_making_config where
  "offGridMinimum = createDefaultMarketMakingConfig\<lparr>minOrderSize := 0.0015\<rparr>"

definition thinMarket :: market_maker_state where
  "thinMarket = sampleQuoting\<lparr>positions := fmempty,
     marketData := fmupd ''BTC-USDT'' (sampleMarketData\<lparr>m_volume24h := 1\<rparr>) fmempty\<rparr>"

definition quotingWithoutLayers :: market_making_config where
  "quotingWithoutLayers = createDefaultMarketMakingConfig\<lparr>layering_enable := False\<rparr>"

definition aggressiveQuoting :: market_making_config where
  "aggressiveQuoting =
     createDefaultMarketMakingConfig\<lparr>rebalanceStrategy := Aggressive, layering_enable := False\<rparr>"

definition fullyLong :: market_maker_state where
  "fullyLong = sampleQuoting\<lparr>positions :=
     fmupd ''BTC-USDT'' (samplePosition\<lparr>p_size := 2.5\<rparr>) fmempty\<rparr>"

definition samplePrices :: "price_point list" where
  "samplePrices = [\<lparr>pp_timestamp = 0, pp_price = 1\<rparr>, \<lparr>pp_timestamp = 1000, pp_price = 2\<rparr>,
                   \<lparr>pp_timestamp = 2000, pp_price = 2\<rparr>]"

definition quotingWithHistory :: market_maker_state where
  "quotingWithHistory = sampleQuoting\<lparr>historicalPrices := fmupd ''BTC-USDT'' samplePrices fmempty\<rparr>"

definition riskWithHistory :: risk_state where
  "riskWithHistory = \<lparr>riskPositions = fmempty, stopLossOrders = fmempty,
     takeProfitOrders = fmempty,
     circuitBreakers = fmupd ''BTC-USDT''
       \<lparr>cb_triggered = False, cb_cooldownUntil = 0, cb_lastVolatility = 0,
        cb_priceHistory = samplePrices\<rparr> fmempty\<rparr>"

definition sampleLong :: position where
  "sampleLong = samplePosition\<lparr>p_size := 1\<rparr>"

definition sampleStop :: order where
  "sampleStop = \<lparr>o_id = ''sl-7'', o_symbol = ''BTC-USDT'', o_side = Sell,
     o_type = StopMarketOrder, o_price = 95, o_size = 1, o_status = StatusNew,
     o_filledSize = 0, o_avgFillPrice = 0, o_timestamp = 0, o_clientOrderId = Some ''sl-7''\<rparr>"

definition riskWithStop :: risk_loop where
  "riskWithStop =
     \<lparr>rl_state =
        \<lparr>riskPositions = fmupd ''BTC-USDT'' sampleLong fmempty,
         stopLossOrders = fmupd ''BTC-USDT-long'' sampleStop fmempty,
         takeProfitOrders = fmempty, circuitBreakers = fmempty\<rparr>,
      rl_pending = []\<rparr>"

definition overlappingTicks :: "loop_event list" where
  "overlappingTicks =
     [Market ''BTC-USDT'' 110, Market ''BTC-USDT'' 100,
      Answer 0 8, Answer 0 9, Answer 0 10, Answer 0 11]"

definition riskWithOffGridStop :: risk_loop where
  "riskWithOffGridStop =
     \<lparr>rl_state =
        \<lparr>riskPositions = fmupd ''BTC-USDT'' sampleLong fmempty,
         stopLossOrders = fmupd ''BTC-USDT-long'' (sampleStop\<lparr>o_price := 95.004\<rparr>) fmempty,
         takeProfitOrders = fmempty, circuitBreakers = fmempty\<rparr>,
      rl_pending = []\<rparr>"





section \<open>Results on the security gate\<close>

subsection \<open>What the audit trail and the execution leave untouched\<close>


lemma logToAudit_pending [simp]:
  "pendingTransactions (logToAudit env now action details st) = pendingTransactions st"
  by (simp add: logToAudit_def Let_def)

lemma executeTransaction_pending:
  "pendingTransactions (executeTransaction env cfg now ident type data v st) =
     (case fmlookup (pendingTransactions st) ident of
        None \<Rightarrow> pendingTransactions st
      | Some p \<Rightarrow> fmupd ident (p\<lparr>tx_status := Executed\<rparr>) (pendingTransactions st))"
  by (simp add: executeTransaction_def Let_def split: option.splits)

lemma signTransaction_rejects:
  assumes "signer \<notin> set (authorizedAddresses cfg)" and "signer \<noteq> walletAddress env"
  shows "\<exists>e. signTransaction env cfg now tid signer st = (Inl e, st)"
  using assms by (simp add: signTransaction_def split: option.splits)

lemma signTransaction_accepts:
  assumes "fmlookup (pendingTransactions st) tid = Some t" and "tx_status t = Pending"
    and "signer \<in> set (authorizedAddresses cfg) \<or> signer = walletAddress env"
  shows "fst (signTransaction env cfg now tid signer st) =
           Inr (requiredSignatures cfg \<le> int (fcard (finsert signer (fmdom (tx_signatures t)))))"
    and "signersOf (snd (signTransaction env cfg now tid signer st)) tid =
           finsert signer (fmdom (tx_signatures t))"
    and "statusOf (snd (signTransaction env cfg now tid signer st)) tid =
           Some (if requiredSignatures cfg \<le> int (fcard (finsert signer (fmdom (tx_signatures t))))
                 then Executed else Pending)"
  using assms
  by (auto simp add: signTransaction_def Let_def signersOf_def statusOf_def
      executeTransaction_pending)

lemma signTransaction_error_state:
  "fst (signTransaction env cfg now tid signer st) = Inl e \<Longrightarrow>
   snd (signTransaction env cfg now tid signer st) = st"
  by (auto simp add: signTransaction_def Let_def split: option.splits if_splits)


lemma secureTransaction_pending:
  assumes "multiSig_enable cfg" and "getSecurityLevel cfg v \<noteq> Low"
  shows "pendingTransactions (snd (secureTransaction env cfg now tid type data v st)) =
     (let t = \<lparr>tx_id = tid, tx_type = type, tx_data = data, tx_value = v,
                          tx_timestamp = now, 
               tx_signatures = fmupd (walletAddress env) (sha256 env (tid @ '':'' @ walletAddress env @ '':'' @ decimal now)) fmempty, tx_status = Pending\<rparr>
      in fmupd tid (if requiredSignatures cfg \<le> 1 then t\<lparr>tx_status := Executed\<rparr> else t) (pendingTransactions st))"
    and "fst (secureTransaction env cfg now tid type data v st) = Inr tid"
  using assms
  by (auto simp add: secureTransaction_def signTransaction_def Let_def executeTransaction_pending
      fcard_finsert_if fcard_fempty)

subsection \<open>Multi-signature approval\<close>

text \<open>
  Claim C2. With multi-signature enabled and two required signatures, a medium-tier
  transaction registered by \<open>secureTransaction\<close> carries exactly the bot's own signature and
  is \<open>pending\<close>; the signature of an authorized identity other than the bot is the second
  one, and the call that adds it returns \<open>true\<close> and leaves the transaction \<open>executed\<close>
  with two signatures. A call by an identity that is neither in the configured list nor the
  bot's own address throws, and the state (signature count and status included) is what it
  was.
\<close>

theorem medium_tier_two_signatures:
  assumes "multiSig_enable cfg" and "requiredSignatures cfg = 2"
    and "getSecurityLevel cfg v = Medium"
    and "signer \<in> set (authorizedAddresses cfg)" and "signer \<noteq> walletAddress env"
    and "intruder \<notin> set (authorizedAddresses cfg)" and "intruder \<noteq> walletAddress env"
  shows "let created = secureTransaction env cfg now tid type data v st;
             st1 = snd created;
             signed = signTransaction env cfg now' tid signer st1
         in fst created = Inr tid
          \<and> statusOf st1 tid = Some Pending \<and> signatureCount st1 tid = Some 1
          \<and> fst signed = Inr True
          \<and> statusOf (snd signed) tid = Some Executed \<and> signatureCount (snd signed) tid = Some 2
          \<and> signTransaction env cfg now'' tid intruder st1 = (Inl (NotAuthorized intruder), st1)"
proof -
  define st1 where "st1 = snd (secureTransaction env cfg now tid type data v st)"
  define t where "t = \<lparr>tx_id = tid, tx_type = type, tx_data = data, tx_value = v,
      tx_timestamp = now,
      tx_signatures = fmupd (walletAddress env)
        (sha256 env (tid @ '':'' @ walletAddress env @ '':'' @ decimal now)) fmempty,
      tx_status = Pending\<rparr>"
  have nl: "getSecurityLevel cfg v \<noteq> Low" using assms(3) by simp
  have p: "pendingTransactions st1 = fmupd tid t (pendingTransactions st)"
    unfolding st1_def t_def using secureTransaction_pending(1) [OF assms(1) nl] assms(2)
    by (simp add: Let_def)
  have c: "fst (secureTransaction env cfg now tid type data v st) = Inr tid"
    using secureTransaction_pending(2) [OF assms(1) nl] .
  have l: "fmlookup (pendingTransactions st1) tid = Some t" by (simp add: p)
  have s: "tx_status t = Pending" by (simp add: t_def)
  have d: "fmdom (tx_signatures t) = {|walletAddress env|}" by (simp add: t_def)
  have two: "fcard (finsert signer {|walletAddress env|}) = 2"
    using assms(5) by (simp add: fcard_finsert_if fcard_fempty)
  have a: "signer \<in> set (authorizedAddresses cfg) \<or> signer = walletAddress env"
    using assms(4) by simp
  note acc = signTransaction_accepts [OF l s a, of now']
  have i: "signTransaction env cfg now'' tid intruder st1 = (Inl (NotAuthorized intruder), st1)"
    using assms(6,7) l s by (simp add: signTransaction_def)
  have "statusOf st1 tid = Some Pending" "signatureCount st1 tid = Some 1"
    by (simp_all add: statusOf_def signatureCount_def l s d fcard_finsert_if fcard_fempty)
  moreover have "fst (signTransaction env cfg now' tid signer st1) = Inr True"
    using acc(1) by (simp add: d two assms(2))
  moreover have "statusOf (snd (signTransaction env cfg now' tid signer st1)) tid = Some Executed"
    using acc(3) by (simp add: d two assms(2))
  moreover have "signatureCount (snd (signTransaction env cfg now' tid signer st1)) tid = Some 2"
    using acc(2) l by (auto simp add: signersOf_def signatureCount_def d two split: option.splits)
  ultimately show ?thesis
    using c i by (simp add: Let_def st1_def)
qed


theorem medium_tier_two_signatures_witness:
  "multiSig_enable (createDefaultSecurityConfig ''0xb07'')
   \<and> requiredSignatures (createDefaultSecurityConfig ''0xb07'') = 2
   \<and> getSecurityLevel (createDefaultSecurityConfig ''0xb07'') 5000 = Medium
   \<and> ''0x0000000000000000000000000000000000000000''
        \<in> set (authorizedAddresses (createDefaultSecurityConfig ''0xb07''))
   \<and> ''0x0000000000000000000000000000000000000000'' \<noteq> walletAddress sampleEnvironment
   \<and> ''0xbad'' \<notin> set (authorizedAddresses (createDefaultSecurityConfig ''0xb07''))
   \<and> ''0xbad'' \<noteq> walletAddress sampleEnvironment
   \<and> statusOf sampleSecured ''tx-1'' = Some Pending
   \<and> signatureCount sampleSecured ''tx-1'' = Some 1
   \<and> fst (signTransaction sampleEnvironment (createDefaultSecurityConfig ''0xb07'') 8 ''tx-1''
         ''0x0000000000000000000000000000000000000000'' sampleSecured) = Inr True
   \<and> statusOf (snd (signTransaction sampleEnvironment (createDefaultSecurityConfig ''0xb07'') 8
         ''tx-1'' ''0x0000000000000000000000000000000000000000'' sampleSecured)) ''tx-1''
       = Some Executed
   \<and> signTransaction sampleEnvironment (createDefaultSecurityConfig ''0xb07'') 9 ''tx-1''
         ''0xbad'' sampleSecured = (Inl (NotAuthorized ''0xbad''), sampleSecured)"
proof -
  have h: "multiSig_enable (createDefaultSecurityConfig ''0xb07'')"
    "requiredSignatures (createDefaultSecurityConfig ''0xb07'') = 2"
    "getSecurityLevel (createDefaultSecurityConfig ''0xb07'') 5000 = Medium"
    "''0x0000000000000000000000000000000000000000''
        \<in> set (authorizedAddresses (createDefaultSecurityConfig ''0xb07''))"
    "''0x0000000000000000000000000000000000000000'' \<noteq> walletAddress sampleEnvironment"
    "''0xbad'' \<notin> set (authorizedAddresses (createDefaultSecurityConfig ''0xb07''))"
    "''0xbad'' \<noteq> walletAddress sampleEnvironment"
    by (simp_all add: createDefaultSecurityConfig_def getSecurityLevel_def sampleEnvironment_def)
  show ?thesis
    using h medium_tier_two_signatures [OF h, of 7 "''tx-1''" "''order''" JNull initialState 8 9]
    by (simp add: Let_def sampleSecured_def)
qed

text \<open>
  Claim C10. Signatures are stored under the signer's address, so a call by an identity
  that has already signed leaves the signature count as it was. Whenever a call does not
  throw, the signers afterwards are the signers before plus the caller, the count is the
  number of distinct signers, the call returns \<open>true\<close> exactly when that number has reached
  the required signatures, and only then is the transaction executed.
\<close>

theorem same_signer_never_raises_count:
  "let r = signTransaction env cfg now tid signer st in
     (signer |\<in>| signersOf st tid \<longrightarrow> signatureCount (snd r) tid = signatureCount st tid)
   \<and> (fst r = Inr b \<longrightarrow>
          signersOf (snd r) tid = finsert signer (signersOf st tid)
        \<and> signatureCount (snd r) tid = Some (fcard (finsert signer (signersOf st tid)))
        \<and> b = (requiredSignatures cfg \<le> int (fcard (signersOf (snd r) tid)))
        \<and> statusOf (snd r) tid = Some (if b then Executed else Pending))"
proof (cases "fmlookup (pendingTransactions st) tid")
  case None
  then show ?thesis
    by (simp add: signTransaction_def signersOf_def)
next
  case (Some t)
  show ?thesis
  proof (cases "tx_status t = Pending \<and>
      (signer \<in> set (authorizedAddresses cfg) \<or> signer = walletAddress env)")
    case True
    then have s: "tx_status t = Pending"
      and a: "signer \<in> set (authorizedAddresses cfg) \<or> signer = walletAddress env"
      by simp_all
    note acc = signTransaction_accepts [OF Some s a, of now]
    have so: "signersOf st tid = fmdom (tx_signatures t)"
      by (simp add: signersOf_def Some)
    have cnt: "signatureCount (snd (signTransaction env cfg now tid signer st)) tid =
        Some (fcard (finsert signer (fmdom (tx_signatures t))))"
      using acc(2) acc(3)
      by (auto simp add: signersOf_def signatureCount_def statusOf_def split: option.splits)
    have old: "signatureCount st tid = Some (fcard (fmdom (tx_signatures t)))"
      by (simp add: signatureCount_def Some)
    show ?thesis
      using acc cnt old so by (auto simp add: Let_def fcard_finsert_if)
  next
    case False
    then have "signTransaction env cfg now tid signer st =
        (Inl (NotFoundOrNotPending tid), st) \<or>
      signTransaction env cfg now tid signer st = (Inl (NotAuthorized signer), st)"
      using Some by (auto simp add: signTransaction_def)
    then show ?thesis by (auto simp add: Let_def)
  qed
qed

theorem same_signer_never_raises_count_witness:
  "''0xb07'' |\<in>| signersOf sampleSecured ''tx-1''
   \<and> signatureCount (snd (signTransaction sampleEnvironment
         (createDefaultSecurityConfig ''0xb07'') 8 ''tx-1'' ''0xb07'' sampleSecured)) ''tx-1''
       = signatureCount sampleSecured ''tx-1''
   \<and> fst (signTransaction sampleEnvironment
         (createDefaultSecurityConfig ''0xb07'') 8 ''tx-1'' ''0xb07'' sampleSecured) = Inr False
   \<and> statusOf (snd (signTransaction sampleEnvironment
         (createDefaultSecurityConfig ''0xb07'') 8 ''tx-1'' ''0xb07'' sampleSecured)) ''tx-1''
       = Some Pending"
proof -
  have m: "''0xb07'' |\<in>| signersOf sampleSecured ''tx-1''"
    by (simp add: sampleSecured_def signersOf_def secureTransaction_pending(1)
        createDefaultSecurityConfig_def getSecurityLevel_def sampleEnvironment_def Let_def)
  have f: "fst (signTransaction sampleEnvironment
         (createDefaultSecurityConfig ''0xb07'') 8 ''tx-1'' ''0xb07'' sampleSecured) = Inr False"
    by (simp add: sampleSecured_def secureTransaction_def signTransaction_def Let_def
        createDefaultSecurityConfig_def getSecurityLevel_def sampleEnvironment_def
        initialState_def fcard_finsert_if fcard_fempty)
  show ?thesis
    using m f same_signer_never_raises_count [of sampleEnvironment
        "createDefaultSecurityConfig ''0xb07''" 8 "''tx-1''" "''0xb07''" sampleSecured False]
    by (simp add: Let_def)
qed


subsection \<open>Verification of the audit trail\<close>

text \<open>The first pass of the loop compares \<open>details.previousHash\<close> of entry 1 with the hash of
  entry 0. \<open>logToAudit\<close> stores the details its caller passed, and no caller passes a
  \<open>previousHash\<close>, so the comparison is between \<open>undefined\<close> and a string.\<close>

lemma verifyAuditLog_second_entry:
  assumes "2 \<le> length (auditLog st)"
    and "getProp (ae_details (auditLog st ! 1)) ''previousHash'' = Inr None"
  shows "verifyAuditLog env st = Inr False"
proof -
  have "[1 ..< length (auditLog st)] = 1 # [Suc 1 ..< length (auditLog st)]"
    using assms(1) by (intro upt_conv_Cons) simp
  moreover have "auditLog st \<noteq> []"
    using assms(1) by auto
  ultimately show ?thesis
    using assms(2) by (simp add: verifyAuditLog_def Let_def)
qed

lemma verifyAuditLog_single_entry:
  "length (auditLog st) = 1 \<Longrightarrow> verifyAuditLog env st = Inr True"
  by (simp add: verifyAuditLog_def)

text \<open>
  Claim C1 (the code departs from it). The claim: verification passes on every unmodified
  chain of length at least 1 and fails once an entry's details or hash is altered. On the
  code: one low-tier transaction secured on a fresh manager with the default configuration
  appends two entries (\<open>transaction_created\<close>, \<open>transaction_executed\<close>), and
  \<open>verifyAuditLog\<close> on that untouched log returns \<open>false\<close>, whatever the hash function is.
\<close>

theorem untampered_chain_fails_verification:
  "verifyAuditLog env (snd (secureTransaction env (createDefaultSecurityConfig addr) now tid
      type data 500 initialState)) = Inr False"
proof (rule verifyAuditLog_second_entry)
  show "2 \<le> length (auditLog (snd (secureTransaction env (createDefaultSecurityConfig addr) now
      tid type data 500 initialState)))"
    by (simp add: secureTransaction_def executeTransaction_def logToAudit_def Let_def
        createDefaultSecurityConfig_def getSecurityLevel_def initialState_def)
  show "getProp (ae_details (auditLog (snd (secureTransaction env
      (createDefaultSecurityConfig addr) now tid type data 500 initialState)) ! 1))
      ''previousHash'' = Inr None"
    by (simp add: secureTransaction_def executeTransaction_def logToAudit_def Let_def
        createDefaultSecurityConfig_def getSecurityLevel_def initialState_def getProp_def)
qed

text \<open>In the other direction, a log of one entry passes whatever its details and hash are:
  the loop starts at index 1 and only ever recomputes the hash of a previous entry.\<close>

lemma tampered_single_entry_passes:
  "verifyAuditLog env (initialState\<lparr>auditLog :=
      [(hd (auditLog (logToAudit env now action details initialState)))
         \<lparr>ae_details := forged, ae_hash := forgedHash\<rparr>]\<rparr>) = Inr True"
  by (simp add: verifyAuditLog_def)


section \<open>Results on the quoting engine\<close>

subsection \<open>Rounding to an increment\<close>


lemma floorTo_bounds:
  assumes "0 < step"
  shows "floorTo step x \<le> x" and "x < floorTo step x + step"
proof -
  have "of_int \<lfloor>x / step\<rfloor> * step \<le> x / step * step"
    by (intro mult_right_mono) (use assms in simp_all)
  then show "floorTo step x \<le> x"
    using assms by (simp add: floorTo_def)
  have "x / step < of_int \<lfloor>x / step\<rfloor> + 1" by linarith
  then have "x / step * step < (of_int \<lfloor>x / step\<rfloor> + 1) * step"
    using assms by (intro mult_strict_right_mono)
  then show "x < floorTo step x + step"
    using assms by (simp add: floorTo_def algebra_simps)
qed

lemma ceilTo_bounds:
  assumes "0 < step"
  shows "x \<le> ceilTo step x" and "ceilTo step x - step < x"
proof -
  have "x / step * step \<le> of_int \<lceil>x / step\<rceil> * step"
    by (intro mult_right_mono) (use assms in simp_all)
  then show "x \<le> ceilTo step x"
    using assms by (simp add: ceilTo_def)
  have "of_int \<lceil>x / step\<rceil> - 1 < x / step" by linarith
  then have "(of_int \<lceil>x / step\<rceil> - 1) * step < x / step * step"
    using assms by (intro mult_strict_right_mono)
  then show "ceilTo step x - step < x"
    using assms by (simp add: ceilTo_def algebra_simps)
qed


subsection \<open>Quotes\<close>

text \<open>
  Claim C5. With the imbalance adjustment disabled and the symbol's book and market data
  present, \<open>calculateOptimalPrices\<close> returns the bid \<open>mid - halfSpread\<close> rounded down and the
  ask \<open>mid + halfSpread\<close> rounded up to the price increment, where \<open>mid\<close> is the mean of the
  best bid and best ask and \<open>halfSpread = mid * tier% / 2\<close> for the selected tier. For a
  positive increment each quote lies within one increment outside its unrounded value. For
  best bid 100, best ask 102 and a selected tier of 0.1 the mid is 101, the half-spread is
  0.0505, and the quotes are 100.9495 rounded down and 101.0505 rounded up.
\<close>

theorem quotes_without_imbalance_adjustment:
  assumes "\<not> imbalance_enable cfg"
    and "fmlookup (orderBooks st) symbol = Some orderBook"
    and "fmlookup (marketData st) symbol = Some market"
  shows "let bestBid = bestPrice (ob_bids orderBook);
             bestAsk = bestPrice (ob_asks orderBook);
             mid = (bestBid + bestAsk) / 2;
             tier = selectSpreadTier cfg (fmlookup (volatilityMetrics st) symbol);
             half = mid * (tier / 100) / 2;
             step = priceIncrement cfg;
             bid = floorTo step (mid - half);
             ask = ceilTo step (mid + half)
         in calculateOptimalPrices cfg st symbol = Inr (bid, ask)
          \<and> (0 < step \<longrightarrow>
                mid - half - step < bid \<and> bid \<le> mid - half
              \<and> mid + half \<le> ask \<and> ask < mid + half + step)
          \<and> (bestBid = 100 \<and> bestAsk = 102 \<and> tier = 1 / 10 \<longrightarrow>
                mid = 101 \<and> half = 101 / 2000
              \<and> bid = floorTo step (101 - 101 / 2000)
              \<and> ask = ceilTo step (101 + 101 / 2000))"
proof -
  have "calculateOptimalPrices cfg st symbol =
      Inr (floorTo (priceIncrement cfg)
             ((bestPrice (ob_bids orderBook) + bestPrice (ob_asks orderBook)) / 2
              - (bestPrice (ob_bids orderBook) + bestPrice (ob_asks orderBook)) / 2
                * (selectSpreadTier cfg (fmlookup (volatilityMetrics st) symbol) / 100) / 2),
           ceilTo (priceIncrement cfg)
             ((bestPrice (ob_bids orderBook) + bestPrice (ob_asks orderBook)) / 2
              + (bestPrice (ob_bids orderBook) + bestPrice (ob_asks orderBook)) / 2
                * (selectSpreadTier cfg (fmlookup (volatilityMetrics st) symbol) / 100) / 2))"
    using assms by (simp add: calculateOptimalPrices_def Let_def)
  moreover have "0 < step \<Longrightarrow> x - step < floorTo step x \<and> floorTo step x \<le> x
      \<and> x \<le> ceilTo step x \<and> ceilTo step x < x + step" for step x :: real
    using floorTo_bounds [of step x] ceilTo_bounds [of step x] by linarith
  moreover have "b = 100 \<and> a = 102 \<and> t = 1 / 10 \<longrightarrow>
      (b + a) / 2 = 101 \<and> (b + a) / 2 * (t / 100) / 2 = 101 / 2000
      \<and> floorTo step ((b + a) / 2 - (b + a) / 2 * (t / 100) / 2)
          = floorTo step (101 - 101 / 2000)
      \<and> ceilTo step ((b + a) / 2 + (b + a) / 2 * (t / 100) / 2)
          = ceilTo step (101 + 101 / 2000)" for a b t step :: real
  proof (intro impI)
    assume "b = 100 \<and> a = 102 \<and> t = 1 / 10"
    then have b: "b = 100" and a: "a = 102" and t: "t = 1 / 10"
      by blast+
    have m: "(b + a) / 2 = 101"
      unfolding a b by simp
    have h: "101 * (t / 100) / 2 = 101 / 2000"
      unfolding t by simp
    show "(b + a) / 2 = 101 \<and> (b + a) / 2 * (t / 100) / 2 = 101 / 2000
      \<and> floorTo step ((b + a) / 2 - (b + a) / 2 * (t / 100) / 2)
          = floorTo step (101 - 101 / 2000)
      \<and> ceilTo step ((b + a) / 2 + (b + a) / 2 * (t / 100) / 2)
          = ceilTo step (101 + 101 / 2000)"
      by (simp only: m h)
  qed
  ultimately show ?thesis
    unfolding Let_def by blast
qed

theorem quotes_without_imbalance_adjustment_witness:
  "\<not> imbalance_enable quotingWithoutImbalance
   \<and> fmlookup (orderBooks sampleQuoting) ''BTC-USDT'' = Some sampleBook
   \<and> fmlookup (marketData sampleQuoting) ''BTC-USDT'' = Some sampleMarketData
   \<and> 0 < priceIncrement quotingWithoutImbalance
   \<and> bestPrice (ob_bids sampleBook) = 100 \<and> bestPrice (ob_asks sampleBook) = 102
   \<and> selectSpreadTier quotingWithoutImbalance
        (fmlookup (volatilityMetrics sampleQuoting) ''BTC-USDT'') = 1 / 10
   \<and> calculateOptimalPrices quotingWithoutImbalance sampleQuoting ''BTC-USDT''
       = Inr (floorTo (1 / 100) (101 - 101 / 2000), ceilTo (1 / 100) (101 + 101 / 2000))
   \<and> floorTo (1 / 100) (101 - 101 / 2000) = 10094 / 100
   \<and> ceilTo (1 / 100) (101 + 101 / 2000) = 10106 / 100"
proof -
  have h: "\<not> imbalance_enable quotingWithoutImbalance"
    "fmlookup (orderBooks sampleQuoting) ''BTC-USDT'' = Some sampleBook"
    "fmlookup (marketData sampleQuoting) ''BTC-USDT'' = Some sampleMarketData"
    by (simp_all add: quotingWithoutImbalance_def createDefaultMarketMakingConfig_def
        sampleQuoting_def)
  have e: "0 < priceIncrement quotingWithoutImbalance"
    "priceIncrement quotingWithoutImbalance = 1 / 100"
    "baseTiers_tier1 quotingWithoutImbalance = 1 / 10"
    "bestPrice (ob_bids sampleBook) = 100" "bestPrice (ob_asks sampleBook) = 102"
    "selectSpreadTier quotingWithoutImbalance
        (fmlookup (volatilityMetrics sampleQuoting) ''BTC-USDT'') = 1 / 10"
    by (simp_all add: quotingWithoutImbalance_def createDefaultMarketMakingConfig_def
        sampleQuoting_def sampleBook_def bestPrice_def selectSpreadTier_def)
  have r: "floorTo (1 / 100) (201899 / 2000) = 5047 / 50"
    "ceilTo (1 / 100) (202101 / 2000) = 5053 / 50"
    by (simp_all add: floorTo_def ceilTo_def)
  show ?thesis
    using quotes_without_imbalance_adjustment [OF h]
    by (simp add: Let_def h e r)
qed



text \<open>What \<open>calculateOptimalPrices\<close> computes with the adjustment enabled and both sides of
  the book non-empty: the adjustment \<open>mid * ratio * adjustmentFactor\<close> (0 when the magnitude of
  the ratio is below the threshold) is subtracted from the bid and added to the ask. Below the
  threshold the quotes are those computed with the adjustment disabled.\<close>

lemma calculateOptimalPrices_with_adjustment:
  assumes "imbalance_enable cfg"
    and "fmlookup (orderBooks st) symbol = Some orderBook"
    and "fmlookup (marketData st) symbol = Some market"
    and "ob_bids orderBook \<noteq> []" and "ob_asks orderBook \<noteq> []"
  shows "let mid = (bestPrice (ob_bids orderBook) + bestPrice (ob_asks orderBook)) / 2;
             tier = selectSpreadTier cfg (fmlookup (volatilityMetrics st) symbol);
             half = mid * (tier / 100) / 2;
             ratio = imbalanceRatio orderBook;
             adjustment = (if \<bar>ratio\<bar> < imbalance_threshold cfg then 0
                           else mid * ratio * imbalance_adjustmentFactor cfg);
             step = priceIncrement cfg
         in calculateOptimalPrices cfg st symbol =
              Inr (floorTo step (mid - half - adjustment), ceilTo step (mid + half + adjustment))
          \<and> (\<bar>ratio\<bar> < imbalance_threshold cfg \<longrightarrow>
                calculateOptimalPrices cfg st symbol =
                  calculateOptimalPrices (cfg\<lparr>imbalance_enable := False\<rparr>) st symbol)"
proof -
  obtain bid0 bidQty bids ask0 askQty asks
    where b: "ob_bids orderBook = (bid0, bidQty) # bids"
      and a: "ob_asks orderBook = (ask0, askQty) # asks"
    using assms(4,5) by (metis list.exhaust surj_pair)
  have adj: "calculateImbalanceAdjustment cfg st symbol =
      Inr (if \<bar>imbalanceRatio orderBook\<bar> < imbalance_threshold cfg then 0
           else (bid0 + ask0) / 2 * imbalanceRatio orderBook * imbalance_adjustmentFactor cfg)"
    using assms(2) a b by (simp add: calculateImbalanceAdjustment_def Let_def)
  have best: "bestPrice (ob_bids orderBook) = bid0" "bestPrice (ob_asks orderBook) = ask0"
    using a b by (simp_all add: bestPrice_def)
  have tier: "selectSpreadTier (cfg\<lparr>imbalance_enable := False\<rparr>) v = selectSpreadTier cfg v"
    for v by (simp add: selectSpreadTier_def split: option.splits)
  show ?thesis
    using assms(1,2,3) adj best
    by (simp add: calculateOptimalPrices_def Let_def tier)
qed

text \<open>On the default configuration with 30 on the bid at 100 and 10 on the ask at 102 the
  ratio is 1/2, above the threshold 1/5, and the adjustment is 25.25: the quotes go from
  (100.94, 101.06) to (75.69, 126.31). The bid has moved down and the ask up, by the same
  amount.\<close>

lemma bid_heavy_book_quotes:
  "calculateOptimalPrices quotingWithoutImbalance sampleQuoting ''BTC-USDT''
     = Inr (10094 / 100, 10106 / 100)
   \<and> imbalanceRatio sampleBook = 1 / 2
   \<and> imbalance_threshold createDefaultMarketMakingConfig = 1 / 5
   \<and> calculateOptimalPrices createDefaultMarketMakingConfig sampleQuoting ''BTC-USDT''
     = Inr (7569 / 100, 12631 / 100)"
  by (simp add: calculateOptimalPrices_def createDefaultMarketMakingConfig_def
      quotingWithoutImbalance_def sampleQuoting_def sampleBook_def sampleMarketData_def
      bestPrice_def selectSpreadTier_def floorTo_def ceilTo_def Let_def
      calculateImbalanceAdjustment_def imbalanceRatio_def topVolume_def)

text \<open>
  Claim C6 (the code departs from it). The claim, like the documentation of
  \<open>calculateImbalanceAdjustment\<close> (``Price adjustment based on imbalance'', a positive ratio
  being ``bullish'' and a negative one ``bearish''), has both quotes shifted by
  \<open>mid * ratio * adjustmentFactor\<close> in the same direction. On the code, with the default
  configuration, 10 on the bid at 100 and 30 on the ask at 102: the ratio is -1/2, beyond the
  threshold 1/5, and the shift is -25.25. Without the adjustment the quotes are
  (100.94, 101.06); shifted the same way they would be (75.69, 75.81). The code returns the
  bid 126.19 and the ask 75.81: the bid has moved up by 25.25 while the ask has moved down,
  and the bid is above the ask.
\<close>

theorem ask_heavy_book_crosses_quotes:
  "calculateOptimalPrices quotingWithoutImbalance askHeavyQuoting ''BTC-USDT''
     = Inr (10094 / 100, 10106 / 100)
   \<and> imbalanceRatio askHeavyBook = - (1 / 2)
   \<and> imbalance_threshold createDefaultMarketMakingConfig = 1 / 5
   \<and> imbalance_adjustmentFactor createDefaultMarketMakingConfig = 1 / 2
   \<and> calculateImbalanceAdjustment createDefaultMarketMakingConfig askHeavyQuoting ''BTC-USDT''
     = Inr (- (2525 / 100))
   \<and> calculateOptimalPrices createDefaultMarketMakingConfig askHeavyQuoting ''BTC-USDT''
     = Inr (12619 / 100, 7581 / 100)"
  by (simp add: calculateOptimalPrices_def createDefaultMarketMakingConfig_def
      quotingWithoutImbalance_def askHeavyQuoting_def sampleQuoting_def askHeavyBook_def
      sampleMarketData_def bestPrice_def selectSpreadTier_def floorTo_def ceilTo_def Let_def
      calculateImbalanceAdjustment_def imbalanceRatio_def topVolume_def)

subsection \<open>Sizes and inventory skew\<close>

lemma calculateBaseOrderSize_range:
  assumes "minOrderSize cfg \<le> maxOrderSize cfg"
  shows "minOrderSize cfg \<le> calculateBaseOrderSize cfg st symbol"
    and "calculateBaseOrderSize cfg st symbol \<le> maxOrderSize cfg"
  using assms by (auto simp add: calculateBaseOrderSize_def Let_def split: option.splits)

lemma inventorySkew_range:
  "- 1 \<le> inventorySkew cfg st symbol" "inventorySkew cfg st symbol \<le> 1"
  by (auto simp add: inventorySkew_def Let_def)

text \<open>For a target ratio between 0 and 1, as the configuration schema requires, the factor
  applied to the ask under a positive skew is \<open>1 + (1 - target) * (1 - skew)\<close> and the one
  applied to the bid under a negative skew is \<open>1 + target * (1 + skew)\<close>: neither is below 1.\<close>

lemma skew_never_shrinks_passive_side:
  assumes "0 \<le> targetRatio cfg" and "targetRatio cfg \<le> 1"
    and "0 \<le> calculateBaseOrderSize cfg st symbol"
  shows "0 < inventorySkew cfg st symbol \<Longrightarrow>
           calculateBaseOrderSize cfg st symbol \<le> snd (skewedOrderSizes cfg st symbol)"
    and "inventorySkew cfg st symbol < 0 \<Longrightarrow>
           calculateBaseOrderSize cfg st symbol \<le> fst (skewedOrderSizes cfg st symbol)"
proof -
  let ?b = "calculateBaseOrderSize cfg st symbol"
  let ?s = "inventorySkew cfg st symbol"
  let ?t = "targetRatio cfg"
  have r: "- 1 \<le> ?s" "?s \<le> 1" by (rule inventorySkew_range)+
  {
    assume "0 < ?s"
    have "0 \<le> (1 - ?t) * (1 - ?s)" using assms(2) r(2) by simp
    then have "1 \<le> 2 - ?t - ?s * (1 - ?t)" by (simp add: algebra_simps)
    then have "?b * 1 \<le> ?b * (2 - ?t - ?s * (1 - ?t))"
      using assms(3) by (intro mult_left_mono)
    then show "?b \<le> snd (skewedOrderSizes cfg st symbol)"
      using \<open>0 < ?s\<close> by (simp add: skewedOrderSizes_def Let_def)
  }
  {
    assume "?s < 0"
    have "0 \<le> ?t * (1 + ?s)" using assms(1) r(1) by simp
    then have "1 \<le> 1 + ?t + ?s * ?t" by (simp add: algebra_simps)
    then have "?b * 1 \<le> ?b * (1 + ?t + ?s * ?t)"
      using assms(3) by (intro mult_left_mono)
    then show "?b \<le> fst (skewedOrderSizes cfg st symbol)"
      using \<open>?s < 0\<close> by (simp add: skewedOrderSizes_def Let_def)
  }
qed

text \<open>
  Claim C7 (the code departs from it). The claim, like the comments in
  \<open>calculateOrderSizes\<close> (``Skewed long, reduce ask size''), has a positive skew shrink the ask
  size below the base order size. On the code, with the default configuration, a 24h volume
  of 500 (base order size 0.5) and a long position of 1.25, the skew is 0.5 and the ask size
  is 0.625, above the base size, while the bid size stays at 0.5.
\<close>

theorem long_inventory_enlarges_ask:
  "calculateBaseOrderSize createDefaultMarketMakingConfig sampleQuoting ''BTC-USDT'' = 1 / 2
   \<and> inventorySkew createDefaultMarketMakingConfig sampleQuoting ''BTC-USDT'' = 1 / 2
   \<and> skewedOrderSizes createDefaultMarketMakingConfig sampleQuoting ''BTC-USDT''
       = (1 / 2, 5 / 8)
   \<and> calculateOrderSizes createDefaultMarketMakingConfig sampleQuoting ''BTC-USDT''
       = (1 / 2, 5 / 8)"
  by (simp add: calculateOrderSizes_def skewedOrderSizes_def inventorySkew_def
      calculateBaseOrderSize_def limitAndRound_def createDefaultMarketMakingConfig_def
      sampleQuoting_def samplePosition_def sampleMarketData_def floorTo_def Let_def)




subsection \<open>Submitted sizes\<close>

lemma placeLimitOrder_sent:
  "snd (placeLimitOrder ex cfg symbol side price qty acc) = snd acc
   \<or> (\<exists>r. snd (placeLimitOrder ex cfg symbol side price qty acc) = snd acc @ [r]
          \<and> r_size r = qty \<and> r_side r = side \<and> r_price r = price)"
  by (simp add: placeLimitOrder_def Let_def split: option.splits)

lemma placeLimitOrder_keeps:
  assumes "\<forall>r \<in> set (snd acc). P r" and "\<And>r. r_size r = qty \<Longrightarrow> r_side r = side \<Longrightarrow> P r"
  shows "\<forall>r \<in> set (snd (placeLimitOrder ex cfg symbol side price qty acc)). P r"
  using placeLimitOrder_sent [of ex cfg symbol side price qty acc] assms by auto



lemma placeBidLayer_keeps:
  assumes "\<forall>r \<in> set (snd acc). minOrderSize cfg \<le> r_size r"
  shows "\<forall>r \<in> set (snd (placeBidLayer ex cfg symbol p q acc i)). minOrderSize cfg \<le> r_size r"
proof (cases "minOrderSize cfg \<le> of_int \<lfloor>q * layering_sizeMultiplier cfg ^ i\<rfloor>")
  case True
  then show ?thesis
    using placeLimitOrder_keeps [OF assms, of "of_int \<lfloor>q * layering_sizeMultiplier cfg ^ i\<rfloor>" Buy]
    by (simp add: placeBidLayer_def Let_def)
next
  case False
  then show ?thesis
    using assms by (simp add: placeBidLayer_def Let_def)
qed

lemma placeAskLayer_keeps:
  assumes "\<forall>r \<in> set (snd acc). minOrderSize cfg \<le> r_size r"
  shows "\<forall>r \<in> set (snd (placeAskLayer ex cfg symbol p q acc i)). minOrderSize cfg \<le> r_size r"
proof (cases "minOrderSize cfg \<le> of_int \<lfloor>q * layering_sizeMultiplier cfg ^ i\<rfloor>")
  case True
  then show ?thesis
    using placeLimitOrder_keeps [OF assms, of "of_int \<lfloor>q * layering_sizeMultiplier cfg ^ i\<rfloor>" Sell]
    by (simp add: placeAskLayer_def Let_def)
next
  case False
  then show ?thesis
    using assms by (simp add: placeAskLayer_def Let_def)
qed

lemma foldl_keeps:
  assumes "\<And>acc i. Q acc \<Longrightarrow> Q (f acc i)" and "Q acc"
  shows "Q (foldl f acc xs)"
  using assms(2) by (induction xs arbitrary: acc) (simp_all add: assms(1))

lemma placeLayeredOrders_keeps:
  assumes "\<forall>r \<in> set (snd acc). minOrderSize cfg \<le> r_size r"
  shows "\<forall>r \<in> set (snd (placeLayeredOrders ex cfg symbol bp ap bq aq acc)).
           minOrderSize cfg \<le> r_size r"
proof -
  let ?Q = "\<lambda>acc. \<forall>r \<in> set (snd acc). minOrderSize cfg \<le> r_size r"
  let ?levels = "[1 ..< Suc (nat (layering_levels cfg))]"
  have bids: "?Q (foldl (placeBidLayer ex cfg symbol bp bq) acc ?levels)"
  proof (rule foldl_keeps [where Q = ?Q])
    show "?Q (placeBidLayer ex cfg symbol bp bq a i)" if "?Q a" for a i
      using that by (rule placeBidLayer_keeps)
    show "?Q acc" by (rule assms)
  qed
  have "?Q (foldl (placeAskLayer ex cfg symbol ap aq)
      (foldl (placeBidLayer ex cfg symbol bp bq) acc ?levels) ?levels)"
  proof (rule foldl_keeps [where Q = ?Q])
    show "?Q (placeAskLayer ex cfg symbol ap aq a i)" if "?Q a" for a i
      using that by (rule placeAskLayer_keeps)
    show "?Q (foldl (placeBidLayer ex cfg symbol bp bq) acc ?levels)" by (rule bids)
  qed
  then show ?thesis
    by (simp add: placeLayeredOrders_def Let_def)
qed


lemma placeBaseQuotes_sent:
  "\<forall>r \<in> set (snd (placeBaseQuotes ex cfg symbol bp ap bq aq st)).
     (r_side r = Buy \<and> r_size r = bq \<and> minOrderSize cfg \<le> bq)
   \<or> (r_side r = Sell \<and> r_size r = aq \<and> minOrderSize cfg \<le> aq)"
proof -
  let ?P = "\<lambda>r. (r_side r = Buy \<and> r_size r = bq \<and> minOrderSize cfg \<le> bq)
   \<or> (r_side r = Sell \<and> r_size r = aq \<and> minOrderSize cfg \<le> aq)"
  let ?a1 = "if minOrderSize cfg \<le> bq
             then placeLimitOrder ex cfg symbol Buy bp bq (st, []) else (st, [])"
  have a1: "\<forall>r \<in> set (snd ?a1). ?P r"
  proof (cases "minOrderSize cfg \<le> bq")
    case True
    then show ?thesis
      using placeLimitOrder_keeps [of "(st, [])" ?P bq Buy ex cfg symbol bp] by simp
  next
    case False
    then show ?thesis by simp
  qed
  have "\<forall>r \<in> set (snd (if minOrderSize cfg \<le> aq
             then placeLimitOrder ex cfg symbol Sell ap aq ?a1 else ?a1)). ?P r"
  proof (cases "minOrderSize cfg \<le> aq")
    case True
    then show ?thesis
      using placeLimitOrder_keeps [of ?a1 ?P aq Sell ex cfg symbol ap] a1 by simp
  next
    case False
    then show ?thesis using a1 by simp
  qed
  then show ?thesis
    by (simp add: placeBaseQuotes_def Let_def)
qed

lemma submitted_cases:
  "submitted ex cfg symbol st = []
   \<or> (\<exists>bp ap bq aq s.
        submitted ex cfg symbol st = snd (placeBaseQuotes ex cfg symbol bp ap bq aq s)
      \<or> submitted ex cfg symbol st =
          snd (placeLayeredOrders ex cfg symbol bp ap bq aq
                 (placeBaseQuotes ex cfg symbol bp ap bq aq s)))"
proof (cases "fmlookup (orderBooks st) symbol")
  case None
  then show ?thesis by (simp add: submitted_def refreshOrdersForSymbol_def)
next
  case book: (Some orderBook)
  show ?thesis
  proof (cases "fmlookup (marketData st) symbol")
    case None
    then show ?thesis using book by (simp add: submitted_def refreshOrdersForSymbol_def)
  next
    case market: (Some m)
    show ?thesis
    proof (cases "calculateOptimalPrices cfg st symbol")
      case (Inl e)
      then show ?thesis
        using book market by (simp add: submitted_def refreshOrdersForSymbol_def)
    next
      case (Inr prices)
      obtain bp ap where p: "prices = (bp, ap)" by (cases prices)
      obtain bq aq where q: "calculateOrderSizes cfg st symbol = (bq, aq)"
        by (cases "calculateOrderSizes cfg st symbol")
      let ?base = "placeBaseQuotes ex cfg symbol bp ap bq aq (cancelOrdersForSymbol ex symbol st)"
      have "submitted ex cfg symbol st =
          snd (if layering_enable cfg
               then placeLayeredOrders ex cfg symbol bp ap bq aq ?base else ?base)"
        using book market Inr p q
        by (simp add: submitted_def refreshOrdersForSymbol_def Let_def)
      then have "submitted ex cfg symbol st = snd ?base
          \<or> submitted ex cfg symbol st = snd (placeLayeredOrders ex cfg symbol bp ap bq aq ?base)"
        by (cases "layering_enable cfg") simp_all
      then show ?thesis by blast
    qed
  qed
qed


text \<open>
  Claim C3 (amended). The claim has a size below the minimum skipped rather than submitted
  at the minimum. On the code no request below the minimum is ever submitted, but a computed
  size below the minimum is first raised to it: every request that one refresh pass hands to
  the exchange, base quote or layered order, has a size of at least the configured minimum
  order size; the bid and ask sizes that \<open>calculateOrderSizes\<close> returns are the computed
  sizes limited to the range from the minimum to the maximum order size and then rounded
  down to the size increment; the refresh pass compares these rounded sizes with the
  minimum, submits a base quote only with exactly that size, and submits no base quote on a
  side whose rounded size is below the minimum.
\<close>

theorem no_quote_below_minimum:
  "(\<forall>r \<in> set (submitted ex cfg symbol st). minOrderSize cfg \<le> r_size r)
   \<and> (let sizes = calculateOrderSizes cfg st symbol;
           raw = skewedOrderSizes cfg st symbol;
           limited = (\<lambda>q. max (minOrderSize cfg) (min (maxOrderSize cfg) q));
           base = snd (placeBaseQuotes ex cfg symbol bidPrice askPrice (fst sizes) (snd sizes) st')
       in fst sizes = floorTo (orderSizeIncrement cfg) (limited (fst raw))
        \<and> snd sizes = floorTo (orderSizeIncrement cfg) (limited (snd raw))
        \<and> (\<forall>r \<in> set base. r_size r = (if r_side r = Buy then fst sizes else snd sizes))
        \<and> (fst sizes < minOrderSize cfg \<longrightarrow> (\<forall>r \<in> set base. r_side r \<noteq> Buy))
        \<and> (snd sizes < minOrderSize cfg \<longrightarrow> (\<forall>r \<in> set base. r_side r \<noteq> Sell)))"
proof -
  have base: "\<forall>r \<in> set (snd (placeBaseQuotes ex cfg symbol bp ap bq aq s)).
      minOrderSize cfg \<le> r_size r" for bp ap bq aq s
    using placeBaseQuotes_sent [of ex cfg symbol bp ap bq aq s] by auto
  have all: "\<forall>r \<in> set (submitted ex cfg symbol st). minOrderSize cfg \<le> r_size r"
    using submitted_cases [of ex cfg symbol st] base placeLayeredOrders_keeps [OF base]
    by (elim disjE exE) simp_all
  have sizes: "fst (calculateOrderSizes cfg st symbol) =
      floorTo (orderSizeIncrement cfg)
        (max (minOrderSize cfg) (min (maxOrderSize cfg) (fst (skewedOrderSizes cfg st symbol))))"
    "snd (calculateOrderSizes cfg st symbol) =
      floorTo (orderSizeIncrement cfg)
        (max (minOrderSize cfg) (min (maxOrderSize cfg) (snd (skewedOrderSizes cfg st symbol))))"
    by (simp_all add: calculateOrderSizes_def limitAndRound_def split: prod.splits)
  have a: "\<forall>r \<in> set (snd (placeBaseQuotes ex cfg symbol bp ap bq aq s)).
      r_size r = (if r_side r = Buy then bq else aq)" for bp ap bq aq s
    using placeBaseQuotes_sent [of ex cfg symbol bp ap bq aq s] by auto
  have b: "bq < minOrderSize cfg \<longrightarrow>
      (\<forall>r \<in> set (snd (placeBaseQuotes ex cfg symbol bp ap bq aq s)). r_side r \<noteq> Buy)"
    for bp ap bq aq s
    using placeBaseQuotes_sent [of ex cfg symbol bp ap bq aq s] by auto
  have c: "aq < minOrderSize cfg \<longrightarrow>
      (\<forall>r \<in> set (snd (placeBaseQuotes ex cfg symbol bp ap bq aq s)). r_side r \<noteq> Sell)"
    for bp ap bq aq s
    using placeBaseQuotes_sent [of ex cfg symbol bp ap bq aq s] by auto
  show ?thesis
    unfolding Let_def
    by (intro conjI all sizes a b c)
qed



lemma sample_sizes:
  "calculateOrderSizes quotingWithoutLayers sampleQuoting ''BTC-USDT'' = (1 / 2, 5 / 8)"
  by (simp add: calculateOrderSizes_def skewedOrderSizes_def inventorySkew_def
      calculateBaseOrderSize_def limitAndRound_def createDefaultMarketMakingConfig_def
      quotingWithoutLayers_def
      sampleQuoting_def samplePosition_def sampleMarketData_def floorTo_def Let_def)

lemma sample_prices:
  "calculateOptimalPrices quotingWithoutLayers sampleQuoting ''BTC-USDT''
     = Inr (7569 / 100, 12631 / 100)"
  by (simp add: calculateOptimalPrices_def createDefaultMarketMakingConfig_def
      quotingWithoutLayers_def
      sampleQuoting_def sampleBook_def sampleMarketData_def
      bestPrice_def selectSpreadTier_def floorTo_def ceilTo_def Let_def
      calculateImbalanceAdjustment_def imbalanceRatio_def topVolume_def)

lemma thin_sizes:
  "calculateOrderSizes offGridMinimum thinMarket ''BTC-USDT'' = (1 / 1000, 1 / 1000)"
  by (simp add: calculateOrderSizes_def skewedOrderSizes_def inventorySkew_def
      calculateBaseOrderSize_def limitAndRound_def createDefaultMarketMakingConfig_def
      offGridMinimum_def thinMarket_def
      sampleQuoting_def samplePosition_def sampleMarketData_def floorTo_def Let_def)

lemma sample_cancel:
  "cancelOrdersForSymbol sampleExchange ''BTC-USDT'' sampleQuoting = sampleQuoting"
  by (simp add: cancelOrdersForSymbol_def sampleQuoting_def)

lemma sample_books:
  "fmlookup (orderBooks sampleQuoting) ''BTC-USDT'' = Some sampleBook"
  "fmlookup (marketData sampleQuoting) ''BTC-USDT'' = Some sampleMarketData"
  "activeOrders sampleQuoting = []"
  by (simp_all add: sampleQuoting_def)

lemma sample_submitted:
  "map r_size (submitted sampleExchange quotingWithoutLayers ''BTC-USDT'' sampleQuoting)
     = [1 / 2, 5 / 8]"
proof -
  have c: "minOrderSize quotingWithoutLayers = 1 / 1000"
    "maxOpenOrders quotingWithoutLayers = 10" "\<not> layering_enable quotingWithoutLayers"
    by (simp_all add: quotingWithoutLayers_def createDefaultMarketMakingConfig_def)
  have "submitted sampleExchange quotingWithoutLayers ''BTC-USDT'' sampleQuoting
      = snd (placeBaseQuotes sampleExchange quotingWithoutLayers ''BTC-USDT''
          (7569 / 100) (12631 / 100) (1 / 2) (5 / 8) sampleQuoting)"
    by (simp add: submitted_def refreshOrdersForSymbol_def sample_books sample_prices
        sample_sizes sample_cancel c)
  then show ?thesis
    by (simp add: placeBaseQuotes_def placeLimitOrder_def c sample_books Let_def
        sampleExchange_def)
qed


text \<open>Claim C3 as stated fails under the aggressive strategy with a base order size of 0.5
  and a long position of 2.5: the skew is 1, the computed bid size is 0, below the minimum
  0.001, and the pass submits a buy order of size 0.001.\<close>

theorem undersized_bid_counterexample:
  "inventorySkew aggressiveQuoting fullyLong ''BTC-USDT'' = 1
   \<and> fst (skewedOrderSizes aggressiveQuoting fullyLong ''BTC-USDT'') = 0
   \<and> minOrderSize aggressiveQuoting = 1 / 1000
   \<and> calculateOrderSizes aggressiveQuoting fullyLong ''BTC-USDT'' = (1 / 1000, 1 / 2)
   \<and> map r_side (submitted sampleExchange aggressiveQuoting ''BTC-USDT'' fullyLong)
       = [Buy, Sell]
   \<and> map r_size (submitted sampleExchange aggressiveQuoting ''BTC-USDT'' fullyLong)
       = [1 / 1000, 1 / 2]"
proof -
  have c: "minOrderSize aggressiveQuoting = 1 / 1000"
    "maxOpenOrders aggressiveQuoting = 10" "\<not> layering_enable aggressiveQuoting"
    by (simp_all add: aggressiveQuoting_def createDefaultMarketMakingConfig_def)
  have k: "inventorySkew aggressiveQuoting fullyLong ''BTC-USDT'' = 1"
    by (simp add: inventorySkew_def calculateBaseOrderSize_def aggressiveQuoting_def
        createDefaultMarketMakingConfig_def fullyLong_def sampleQuoting_def samplePosition_def
        sampleMarketData_def Let_def)
  have r: "skewedOrderSizes aggressiveQuoting fullyLong ''BTC-USDT'' = (0, 1 / 2)"
    by (simp add: skewedOrderSizes_def k Let_def)
      (simp add: calculateBaseOrderSize_def aggressiveQuoting_def
        createDefaultMarketMakingConfig_def fullyLong_def sampleQuoting_def
        sampleMarketData_def Let_def)
  have s: "calculateOrderSizes aggressiveQuoting fullyLong ''BTC-USDT'' = (1 / 1000, 1 / 2)"
    by (simp add: calculateOrderSizes_def r limitAndRound_def floorTo_def)
      (simp add: aggressiveQuoting_def createDefaultMarketMakingConfig_def floorTo_def)
  have p: "calculateOptimalPrices aggressiveQuoting fullyLong ''BTC-USDT''
     = Inr (7569 / 100, 12631 / 100)"
    by (simp add: calculateOptimalPrices_def createDefaultMarketMakingConfig_def
      aggressiveQuoting_def fullyLong_def
      sampleQuoting_def sampleBook_def sampleMarketData_def
      bestPrice_def selectSpreadTier_def floorTo_def ceilTo_def Let_def
      calculateImbalanceAdjustment_def imbalanceRatio_def topVolume_def)
  have b: "fmlookup (orderBooks fullyLong) ''BTC-USDT'' = Some sampleBook"
    "fmlookup (marketData fullyLong) ''BTC-USDT'' = Some sampleMarketData"
    "activeOrders fullyLong = []"
    "cancelOrdersForSymbol sampleExchange ''BTC-USDT'' fullyLong = fullyLong"
    by (simp_all add: fullyLong_def sampleQuoting_def cancelOrdersForSymbol_def)
  have "submitted sampleExchange aggressiveQuoting ''BTC-USDT'' fullyLong
      = snd (placeBaseQuotes sampleExchange aggressiveQuoting ''BTC-USDT''
          (7569 / 100) (12631 / 100) (1 / 1000) (1 / 2) fullyLong)"
    by (simp add: submitted_def refreshOrdersForSymbol_def b p s c)
  then have "map r_side (submitted sampleExchange aggressiveQuoting ''BTC-USDT'' fullyLong)
       = [Buy, Sell]"
    "map r_size (submitted sampleExchange aggressiveQuoting ''BTC-USDT'' fullyLong)
       = [1 / 1000, 1 / 2]"
    by (simp_all add: placeBaseQuotes_def placeLimitOrder_def c b Let_def sampleExchange_def)
  then show ?thesis
    using k r s c(1) by simp
qed

theorem no_quote_below_minimum_witness:
  "submitted sampleExchange quotingWithoutLayers ''BTC-USDT'' sampleQuoting \<noteq> []
   \<and> minOrderSize quotingWithoutLayers
       \<le> r_size (hd (submitted sampleExchange quotingWithoutLayers ''BTC-USDT'' sampleQuoting))
   \<and> minOrderSize quotingWithoutLayers
       \<le> r_size (last (submitted sampleExchange quotingWithoutLayers ''BTC-USDT'' sampleQuoting))
   \<and> fst (calculateOrderSizes offGridMinimum thinMarket ''BTC-USDT'')
       < minOrderSize offGridMinimum
   \<and> snd (calculateOrderSizes offGridMinimum thinMarket ''BTC-USDT'')
       < minOrderSize offGridMinimum
   \<and> snd (placeBaseQuotes sampleExchange offGridMinimum ''BTC-USDT'' 100 102
         (fst (calculateOrderSizes offGridMinimum thinMarket ''BTC-USDT''))
         (snd (calculateOrderSizes offGridMinimum thinMarket ''BTC-USDT'')) thinMarket) = []"
proof -
  let ?sent = "submitted sampleExchange quotingWithoutLayers ''BTC-USDT'' sampleQuoting"
  let ?base = "snd (placeBaseQuotes sampleExchange offGridMinimum ''BTC-USDT'' 100 102
         (fst (calculateOrderSizes offGridMinimum thinMarket ''BTC-USDT''))
         (snd (calculateOrderSizes offGridMinimum thinMarket ''BTC-USDT'')) thinMarket)"
  have n: "?sent \<noteq> []"
    using sample_submitted by auto
  then have m: "hd ?sent \<in> set ?sent" "last ?sent \<in> set ?sent"
    by simp_all
  have small: "fst (calculateOrderSizes offGridMinimum thinMarket ''BTC-USDT'')
       < minOrderSize offGridMinimum"
    "snd (calculateOrderSizes offGridMinimum thinMarket ''BTC-USDT'')
       < minOrderSize offGridMinimum"
    using thin_sizes
    by (simp_all add: offGridMinimum_def createDefaultMarketMakingConfig_def)
  note first = no_quote_below_minimum [of sampleExchange quotingWithoutLayers "''BTC-USDT''"
      sampleQuoting 100 102 sampleQuoting]
  note second = no_quote_below_minimum [of sampleExchange offGridMinimum "''BTC-USDT''"
      thinMarket 100 102 thinMarket]
  have nb: "\<forall>r \<in> set ?base. r_side r \<noteq> Buy"
    using second [unfolded Let_def, THEN conjunct2, THEN conjunct2, THEN conjunct2,
        THEN conjunct2, THEN conjunct1] small(1) by (rule mp)
  have ns: "\<forall>r \<in> set ?base. r_side r \<noteq> Sell"
    using second [unfolded Let_def, THEN conjunct2, THEN conjunct2, THEN conjunct2,
        THEN conjunct2, THEN conjunct2] small(2) by (rule mp)
  have "r \<notin> set ?base" for r
    using nb ns by (cases "r_side r") auto
  then have e: "?base = []"
    by (cases ?base) auto
  have all: "\<forall>r \<in> set ?sent. minOrderSize quotingWithoutLayers \<le> r_size r"
    using first by (rule conjunct1)
  have "minOrderSize quotingWithoutLayers \<le> r_size (hd ?sent)"
    "minOrderSize quotingWithoutLayers \<le> r_size (last ?sent)"
    using all m by blast+
  then show ?thesis
    using n small e by (intro conjI)
qed


section \<open>Results on volatility\<close>

lemma sample_deviation: "stdDevOf (tickReturns (map pp_price samplePrices)) = 1 / 2"
proof -
  have "sqrt (1 / 4) = 1 / 2"
    by (rule real_sqrt_unique) (simp_all add: power2_eq_square)
  then show ?thesis
    by (simp add: stdDevOf_def samplePrices_def Let_def power2_eq_square)
qed

text \<open>Claim C8 as stated fails on the price history 1, 2, 2 (three points, two returns
  of deviation 1/2): the quoting engine returns \<open>50 * sqrt 525600\<close>, the risk engine
  \<open>50 * sqrt 15768000\<close>.\<close>

theorem volatility_mismatch_counterexample:
  "calculateVolatility quotingWithHistory ''BTC-USDT'' 0 = 50 * sqrt 525600
   \<and> calculateCircuitBreakerVolatility riskWithHistory ''BTC-USDT'' = 50 * sqrt 15768000
   \<and> calculateVolatility quotingWithHistory ''BTC-USDT'' 0
       \<noteq> calculateCircuitBreakerVolatility riskWithHistory ''BTC-USDT''"
proof -
  have f: "filter (\<lambda>point. 0 \<le> pp_timestamp point) samplePrices = samplePrices"
    "length samplePrices = 3"
    by (simp_all add: samplePrices_def)
  have q: "calculateVolatility quotingWithHistory ''BTC-USDT'' 0 = 50 * sqrt 525600"
    by (simp add: calculateVolatility_def quotingWithHistory_def f sample_deviation Let_def)
  have r: "calculateCircuitBreakerVolatility riskWithHistory ''BTC-USDT'' = 50 * sqrt 15768000"
    by (simp add: calculateCircuitBreakerVolatility_def riskWithHistory_def f sample_deviation
        Let_def)
  have "sqrt 525600 \<noteq> sqrt 15768000"
    by (simp only: real_sqrt_eq_iff)
  then show ?thesis
    using q r by simp
qed

text \<open>
  Claim C8 (amended). The claim has the two volatilities equal on the same price history.
  On the code both are a percentage built from the same standard deviation of per-tick
  returns, but the quoting engine annualises with the constant \<open>sqrt 525600\<close> (minutes in a
  year) and the risk engine with \<open>sqrt (31536000 / samples)\<close>, where \<open>samples\<close> is the number
  of returns: for a history of at least two points, all inside the quoting engine's
  lookback window, the risk engine's value is the quoting engine's value times
  \<open>sqrt (60 / samples)\<close>.
\<close>

theorem volatilities_differ_by_annualization:
  assumes "fmlookup (historicalPrices mm) symbol = Some history"
    and "fmlookup (circuitBreakers risk) symbol = Some breaker"
    and "cb_priceHistory breaker = history"
    and "\<forall>point \<in> set history. startTime \<le> pp_timestamp point"
    and "2 \<le> length history"
  shows "let deviation = stdDevOf (tickReturns (map pp_price history));
             samples = real (length history - 1)
         in calculateVolatility mm symbol startTime = deviation * sqrt 525600 * 100
          \<and> calculateCircuitBreakerVolatility risk symbol
              = deviation * sqrt (31536000 / samples) * 100
          \<and> calculateCircuitBreakerVolatility risk symbol
              = calculateVolatility mm symbol startTime * sqrt (60 / samples)"
proof -
  have f: "filter (\<lambda>point. startTime \<le> pp_timestamp point) history = history"
    using assms(4) by (simp add: filter_id_conv)
  have n: "\<not> length history < 2" using assms(5) by simp
  have q: "calculateVolatility mm symbol startTime
      = stdDevOf (tickReturns (map pp_price history)) * sqrt 525600 * 100"
    using assms(1) n by (simp add: calculateVolatility_def f Let_def)
  have r: "calculateCircuitBreakerVolatility risk symbol
      = stdDevOf (tickReturns (map pp_price history))
        * sqrt (31536000 / real (length history - 1)) * 100"
    using assms(2,3) n by (simp add: calculateCircuitBreakerVolatility_def Let_def)
  have "sqrt (31536000 / real (length history - 1))
      = sqrt 525600 * sqrt (60 / real (length history - 1))"
    by (simp add: real_sqrt_mult [symmetric])
  then show ?thesis
    using q r by (simp add: Let_def)
qed


theorem volatilities_differ_by_annualization_witness:
  "fmlookup (historicalPrices quotingWithHistory) ''BTC-USDT'' = Some samplePrices
   \<and> fmlookup (circuitBreakers riskWithHistory) ''BTC-USDT''
       = Some \<lparr>cb_triggered = False, cb_cooldownUntil = 0, cb_lastVolatility = 0,
               cb_priceHistory = samplePrices\<rparr>
   \<and> 2 \<le> length samplePrices
   \<and> calculateVolatility quotingWithHistory ''BTC-USDT'' 0 = 50 * sqrt 525600
   \<and> calculateCircuitBreakerVolatility riskWithHistory ''BTC-USDT''
       = calculateVolatility quotingWithHistory ''BTC-USDT'' 0 * sqrt 30"
proof -
  have h: "fmlookup (historicalPrices quotingWithHistory) ''BTC-USDT'' = Some samplePrices"
    "fmlookup (circuitBreakers riskWithHistory) ''BTC-USDT''
       = Some \<lparr>cb_triggered = False, cb_cooldownUntil = 0, cb_lastVolatility = 0,
               cb_priceHistory = samplePrices\<rparr>"
    "cb_priceHistory \<lparr>cb_triggered = False, cb_cooldownUntil = 0, cb_lastVolatility = 0,
               cb_priceHistory = samplePrices\<rparr> = samplePrices"
    "\<forall>point \<in> set samplePrices. 0 \<le> pp_timestamp point"
    "2 \<le> length samplePrices"
    by (simp_all add: quotingWithHistory_def riskWithHistory_def sampleQuoting_def
        samplePrices_def)
  have l: "length samplePrices = 3"
    by (simp add: samplePrices_def)
  have c: "60 / real (length samplePrices - 1) = 30"
    by (simp add: l)
  note inst = volatilities_differ_by_annualization [OF h, unfolded Let_def]
  have a: "calculateVolatility quotingWithHistory ''BTC-USDT'' 0 = 50 * sqrt 525600"
    using inst by (simp add: sample_deviation)
  have b: "calculateCircuitBreakerVolatility riskWithHistory ''BTC-USDT''
       = calculateVolatility quotingWithHistory ''BTC-USDT'' 0 * sqrt 30"
    using inst unfolding c by (elim conjE)
  show ?thesis
    using h(1,2,5) a b by (intro conjI)
qed

section \<open>Results on the trailing stop-loss\<close>

text \<open>For a long position the first segment goes on to the cancellation only when the
  candidate is strictly above the price of the stop order it has just read.\<close>

lemma trailing_starts_only_above:
  assumes "trailingReadAndCompare cfg position currentPrice positionId st = Some call"
    and "0 < p_size position"
  shows "\<exists>held. fmlookup (stopLossOrders st) positionId = Some held
           \<and> o_price held < currentPrice * (1 - stopLoss_trailingPercentage cfg / 100)
           \<and> tc_stopLossOrder call = held
           \<and> tc_newStopPrice call
               = currentPrice * (1 - stopLoss_trailingPercentage cfg / 100)"
  using assms
  by (auto simp add: trailingReadAndCompare_def trailingCandidate_def Let_def algebra_simps
      split: option.splits if_splits)

lemma sample_candidates:
  "trailingCandidate createDefaultRiskConfig sampleLong 110 = 539 / 5"
  "trailingCandidate createDefaultRiskConfig sampleLong 100 = 98"
  by (simp_all add: trailingCandidate_def createDefaultRiskConfig_def sampleLong_def Let_def)

lemma sample_rounding: "toFixed2 (539 / 5) = 539 / 5" "toFixed2 98 = 98"
  by (simp_all add: toFixed2_def)

lemma sample_flags:
  "stopLoss_enable createDefaultRiskConfig" "stopLoss_trailingEnable createDefaultRiskConfig"
  "p_size sampleLong = 1" "p_symbol sampleLong = ''BTC-USDT''" "o_price sampleStop = 95"
  by (simp_all add: createDefaultRiskConfig_def sampleLong_def samplePosition_def sampleStop_def)

text \<open>
  Claim C4 (the code departs from it). The claim, like the comment in the code (``Only
  update if new stop price is higher than current stop price''), has the stop of a long
  position never decrease and never change on an unfavourable tick. On the code, with the
  default configuration (trailing 2 %), a long position and its stop at 95: a tick at 110
  and then a tick at 100 arrive before the exchange has answered the first cancellation.
  Both calls have read the stop at 95, so both go on. When the first call has finished the
  stop is at 107.8; when the second has finished it is at 98: the later, lower tick has
  replaced the stop and lowered it.
\<close>

theorem overlapping_ticks_loosen_stop:
  "stopPrice riskWithStop ''BTC-USDT-long'' = Some 95
   \<and> stopPrice (runEvents sampleExchange createDefaultRiskConfig (take 4 overlappingTicks)
        riskWithStop) ''BTC-USDT-long'' = Some (539 / 5)
   \<and> stopPrice (runEvents sampleExchange createDefaultRiskConfig overlappingTicks
        riskWithStop) ''BTC-USDT-long'' = Some 98
   \<and> rl_pending (runEvents sampleExchange createDefaultRiskConfig overlappingTicks
        riskWithStop) = []"
  by (simp add: overlappingTicks_def runEvents_def riskWithStop_def onMarket_def
      checkStopLossAndTakeProfit_def trailingReadAndCompare_def sample_candidates sample_flags
      resume_def trailingAfterCancel_def trailingAfterPlace_def sample_rounding stopPrice_def
      sampleExchange_def Let_def)


text \<open>The comparison is made on the unrounded candidate and the rounding comes after it: a
  tracked stop at 95.004 (a price the exchange reported, not a multiple of 0.01) and a tick
  at 96.9435, whose candidate 95.00463 is above it, end with the stop at 95, with no other
  call in between.\<close>

lemma off_grid_stop_is_lowered:
  "stopPrice riskWithOffGridStop ''BTC-USDT-long'' = Some (95004 / 1000)
   \<and> stopPrice (runEvents sampleExchange createDefaultRiskConfig
        [Market ''BTC-USDT'' (193887 / 2000), Answer 0 8, Answer 0 9] riskWithOffGridStop)
        ''BTC-USDT-long'' = Some 95"
proof -
  have c: "trailingCandidate createDefaultRiskConfig sampleLong (193887 / 2000)
      = 9500463 / 100000"
    by (simp add: trailingCandidate_def createDefaultRiskConfig_def sampleLong_def Let_def)
  have r: "toFixed2 (9500463 / 100000) = 95"
    by (simp add: toFixed2_def)
  show ?thesis
    by (simp add: runEvents_def riskWithOffGridStop_def onMarket_def
      checkStopLossAndTakeProfit_def trailingReadAndCompare_def c r sample_flags
      resume_def trailingAfterCancel_def trailingAfterPlace_def stopPrice_def
      sampleExchange_def sampleStop_def Let_def)
qed

section \<open>Results on the performance ledger\<close>











text \<open>The groups: one for each base id among the orders, holding the orders with that base
  id in their original order.\<close>

lemma pushToGroup_keys:
  "map fst (pushToGroup k x gs) = (if k \<in> set (map fst gs) then map fst gs else map fst gs @ [k])"
  by (induction gs) (auto simp add: rev_image_eqI)

lemma pushToGroup_map_of:
  "map_of (pushToGroup k x gs) =
     (map_of gs)(k \<mapsto> (case map_of gs k of None \<Rightarrow> [x] | Some orders \<Rightarrow> orders @ [x]))"
  by (induction gs) (auto simp add: fun_eq_iff)

lemma groupOrders_snoc:
  "groupOrders (xs @ [x]) = pushToGroup (baseIdOf x) x (groupOrders xs)"
  by (simp add: groupOrders_def)

lemma groupOrders_keys:
  "distinct (map fst (groupOrders xs)) \<and> set (map fst (groupOrders xs)) = baseIdOf ` set xs"
proof (induction xs rule: rev_induct)
  case Nil
  then show ?case by (simp add: groupOrders_def)
next
  case (snoc x xs)
  then show ?case
    by (auto simp add: groupOrders_snoc pushToGroup_keys)
qed

lemma groupOrders_lookup:
  "map_of (groupOrders xs) k =
     (if filter (\<lambda>other. baseIdOf other = k) xs = [] then None
      else Some (filter (\<lambda>other. baseIdOf other = k) xs))"
proof (induction xs arbitrary: k rule: rev_induct)
  case Nil
  then show ?case by (simp add: groupOrders_def)
next
  case (snoc x xs)
  then show ?case
    by (simp add: groupOrders_snoc pushToGroup_map_of)
qed


lemma groupOrders_group:
  assumes "(key, orders) \<in> set (groupOrders xs)"
  shows "orders = filter (\<lambda>other. baseIdOf other = key) xs \<and> orders \<noteq> []"
proof -
  have "map_of (groupOrders xs) key = Some orders"
    using assms groupOrders_keys [of xs] by simp
  then show ?thesis
    by (auto simp add: groupOrders_lookup split: if_splits)
qed















end
